theory Spec2Isabelle
  imports Complex_Main "HOL-Library.AList"
begin

section \<open>Numbers of the source\<close>

text \<open>
  The fusion engine of \<^verbatim>\<open>src/api/data_sources.py\<close> computes with Python floats and
  unbounded integers. Floats are modelled by the real numbers they approximate (exact
  arithmetic), integers by \<^typ>\<open>int\<close>. The three conversions the source uses are written
  out: \<^verbatim>\<open>round(x)\<close> rounds to the nearest integer with ties going to the even
  neighbour, \<^verbatim>\<open>round(x, n)\<close> does the same at the n-th decimal place, and
  \<^verbatim>\<open>int(x)\<close> truncates towards zero.
\<close>

definition py_round :: "real \<Rightarrow> int" where
  "py_round x =
     (let f = \<lfloor>x\<rfloor>; d = x - of_int f
      in if d < 1 / 2 then f
         else if 1 / 2 < d then f + 1
         else if even f then f else f + 1)"

definition py_round_to :: "real \<Rightarrow> nat \<Rightarrow> real" where
  "py_round_to x n = of_int (py_round (x * 10 ^ n)) / 10 ^ n"

definition py_int :: "real \<Rightarrow> int" where
  "py_int x = (if 0 \<le> x then \<lfloor>x\<rfloor> else \<lceil>x\<rceil>)"

definition py_fmod :: "real \<Rightarrow> real \<Rightarrow> real" where
  \<comment> \<open>\<^verbatim>\<open>x % m\<close> on floats, for a positive modulus\<close>
  "py_fmod x m = x - m * of_int \<lfloor>x / m\<rfloor>"

section \<open>Concentration to index conversion\<close>

text \<open>
  \<^verbatim>\<open>_pm25_to_aqi\<close> walks the table of EPA breakpoints and interpolates in the first band
  that contains the concentration; when the loop finds no band it returns 500.
\<close>

type_synonym breakpoint = "real \<times> real \<times> real \<times> real"

definition pm25_breakpoints :: "breakpoint list" where
  "pm25_breakpoints =
     [(0, 12.0, 0, 50),
      (12.1, 35.4, 51, 100),
      (35.5, 55.4, 101, 150),
      (55.5, 150.4, 151, 200),
      (150.5, 250.4, 201, 300),
      (250.5, 500.4, 301, 500)]"

definition band_aqi :: "breakpoint \<Rightarrow> real \<Rightarrow> real" where
  "band_aqi b c =
     (case b of (bp_lo, bp_hi, aqi_lo, aqi_hi) \<Rightarrow>
        ((aqi_hi - aqi_lo) / (bp_hi - bp_lo)) * (c - bp_lo) + aqi_lo)"

definition in_band :: "breakpoint \<Rightarrow> real \<Rightarrow> bool" where
  "in_band b c = (case b of (bp_lo, bp_hi, aqi_lo, aqi_hi) \<Rightarrow> bp_lo \<le> c \<and> c \<le> bp_hi)"

fun scan_breakpoints :: "breakpoint list \<Rightarrow> real \<Rightarrow> int" where
  "scan_breakpoints [] c = 500"
| "scan_breakpoints (b # bs) c =
     (if in_band b c then py_round (band_aqi b c) else scan_breakpoints bs c)"

definition pm25_to_aqi :: "real \<Rightarrow> int" where
  "pm25_to_aqi pm25_concentration = scan_breakpoints pm25_breakpoints pm25_concentration"

definition o3_to_aqi :: "real \<Rightarrow> real" where
  "o3_to_aqi o3_concentration =
     (if o3_concentration \<le> 54 then (50 / 54) * o3_concentration
      else if o3_concentration \<le> 70 then 51 + ((100 - 51) / (70 - 55)) * (o3_concentration - 55)
      else if o3_concentration \<le> 85 then 101 + ((150 - 101) / (85 - 71)) * (o3_concentration - 71)
      else if o3_concentration \<le> 105 then 151 + ((200 - 151) / (105 - 86)) * (o3_concentration - 86)
      else min 500 (201 + (o3_concentration - 106) * 2))"

definition no2_to_aqi :: "real \<Rightarrow> real" where
  "no2_to_aqi no2_concentration =
     (if no2_concentration \<le> 53 then (50 / 53) * no2_concentration
      else if no2_concentration \<le> 100 then 51 + ((100 - 51) / (100 - 54)) * (no2_concentration - 54)
      else if no2_concentration \<le> 360 then 101 + ((150 - 101) / (360 - 101)) * (no2_concentration - 101)
      else min 500 (151 + (no2_concentration - 361) * 0.5))"

section \<open>Ground stations and spatial averaging\<close>

text \<open>
  A Python \<^verbatim>\<open>dict\<close> is an association list in insertion order: \<^const>\<open>map_of\<close> reads a
  key, \<^const>\<open>AList.update\<close> assigns one (overwriting in place or appending). Timestamps
  (\<^verbatim>\<open>datetime.utcnow()\<close>) are left out of every record.
\<close>

type_synonym ('k, 'v) dict = "('k \<times> 'v) list"

datatype py_error = ZeroDivisionError

record measurement =
  m_value :: "real option"
  m_unit :: "string option"
  m_source :: "string option"

record coordinates =
  latitude :: "real option"
  longitude :: "real option"

record station =
  st_name :: "string option"
  st_coordinates :: coordinates
  distance_km :: real
  st_measurements :: "(string, measurement) dict"

record averaged =
  a_value :: real
  a_confidence :: real

text \<open>
  \<^verbatim>\<open>_calculate_weighted_average\<close>: the accumulator maps a parameter to the pair
  (\<^verbatim>\<open>total_value\<close>, \<^verbatim>\<open>total_weight\<close>). The division \<^verbatim>\<open>1 / (distance + 1)\<close> raises
  when the distance is \<open>-1\<close>.
\<close>

type_synonym weighted = "(string, real \<times> real) dict"

fun accumulate_measurements :: "real \<Rightarrow> (string, measurement) dict \<Rightarrow> weighted \<Rightarrow> weighted" where
  "accumulate_measurements weight [] wm = wm"
| "accumulate_measurements weight ((param, m) # ms) wm =
     (let wm1 = (if map_of wm param = None then AList.update param (0, 0) wm else wm);
          wm2 = (case m_value m of
                   None \<Rightarrow> wm1
                 | Some v \<Rightarrow>
                     (case map_of wm1 param of
                        None \<Rightarrow> wm1
                      | Some (total_value, total_weight) \<Rightarrow>
                          AList.update param (total_value + v * weight, total_weight + weight) wm1))
      in accumulate_measurements weight ms wm2)"

fun accumulate_stations :: "station list \<Rightarrow> weighted \<Rightarrow> py_error + weighted" where
  "accumulate_stations [] wm = Inr wm"
| "accumulate_stations (s # ss) wm =
     (if distance_km s + 1 = 0 then Inl ZeroDivisionError
      else accumulate_stations ss
             (accumulate_measurements (1 / (distance_km s + 1)) (st_measurements s) wm))"

fun final_averages :: "weighted \<Rightarrow> (string, averaged) dict \<Rightarrow> (string, averaged) dict" where
  "final_averages [] result = result"
| "final_averages ((param, (total_value, total_weight)) # wm) result =
     final_averages wm
       (if 0 < total_weight
        then AList.update param
               \<lparr>a_value = py_round_to (total_value / total_weight) 2,
                a_confidence = min (total_weight * 10) 100\<rparr> result
        else result)"

definition calculate_weighted_average :: "station list \<Rightarrow> py_error + (string, averaged) dict" where
  "calculate_weighted_average stations_data =
     (case accumulate_stations stations_data [] of
        Inl e \<Rightarrow> Inl e
      | Inr weighted_measurements \<Rightarrow> Inr (final_averages weighted_measurements []))"





section \<open>Formatting and random numbers\<close>

text \<open>
  \<^verbatim>\<open>f"{x:.3f}"\<close> prints the sign, the integer part and exactly three decimals of the
  rounded value; a negative number that rounds to zero keeps its sign. The model covers
  the precisions the source uses (two and three decimals).
\<close>

definition digit_char :: "nat \<Rightarrow> char" where
  \<comment> \<open>only applied to \<open>d < 10\<close>\<close>
  "digit_char d = ''0123456789'' ! d"

fun nat_digits :: "nat \<Rightarrow> string" where
  "nat_digits n = (if n < 10 then [digit_char n] else nat_digits (n div 10) @ [digit_char (n mod 10)])"

declare nat_digits.simps [simp del]

definition frac_digits :: "nat \<Rightarrow> nat \<Rightarrow> string" where
  "frac_digits k q = map (\<lambda>i. digit_char ((q div 10 ^ i) mod 10)) (rev [0..<k])"

definition py_format_f :: "nat \<Rightarrow> real \<Rightarrow> string" where
  "py_format_f k x =
     (let q = nat (py_round (\<bar>x\<bar> * 10 ^ k))
      in (if x < 0 then ''-'' else []) @ nat_digits (q div 10 ^ k) @ ''.'' @ frac_digits k q)"

definition location_key :: "real \<Rightarrow> real \<Rightarrow> string" where
  \<comment> \<open>\<^verbatim>\<open>f"{lat:.3f},{lon:.3f}"\<close>\<close>
  "location_key lat lon = py_format_f 3 lat @ '','' @ py_format_f 3 lon"

text \<open>
  The generator of the standard library is a pair of functions: \<open>seed_of\<close> is
  \<^verbatim>\<open>int(hashlib.md5(key.encode()).hexdigest()[:8], 16)\<close>, and \<open>draw s i\<close> is the i-th value
  of \<^verbatim>\<open>random.random()\<close> after \<^verbatim>\<open>random.seed(s)\<close>. Draws made without a preceding
  \<^verbatim>\<open>random.seed\<close> are inputs of the function that makes them.
\<close>

record random_source =
  seed_of :: "string \<Rightarrow> nat"
  draw :: "nat \<Rightarrow> nat \<Rightarrow> real"

definition uniform :: "real \<Rightarrow> real \<Rightarrow> real \<Rightarrow> real" where
  \<comment> \<open>\<^verbatim>\<open>random.uniform(a, b)\<close> is \<^verbatim>\<open>a + (b - a) * random()\<close>\<close>
  "uniform a b u = a + (b - a) * u"

section \<open>Readings\<close>

record pollutant =
  p_value :: "real option"
  p_unit :: string
  p_aqi :: "real option"
  p_source :: string
  p_spatial_resolution :: "string option"

text \<open>
  One record serves both ground formats: the OpenAQ dictionaries carry
  \<open>averaged_measurements\<close> and no \<open>overall_aqi\<close>, the AQICN dictionaries the reverse.
  \<^verbatim>\<open>d.get(key)\<close> of a missing key and of a key holding \<^verbatim>\<open>None\<close> are both \<^const>\<open>None\<close>.
\<close>

record ground_reading =
  g_source :: string
  g_type :: string
  g_location :: "real \<times> real"
  stations_count :: "nat option"
  stations_data :: "station list"
  averaged_measurements :: "(string, averaged) dict option"
  g_station_name :: "string option"
  g_overall_aqi :: "int option"
  g_pollutants :: "(string, pollutant) dict option"

record sat_pollutant =
  sp_value :: real
  sp_unit :: string
  sp_quality :: string

record tempo_reading =
  t_source :: string
  t_type :: string
  t_location :: "real \<times> real"
  t_pollutants :: "(string, sat_pollutant) dict"
  spatial_resolution :: string
  temporal_resolution :: string
  coverage :: string

record weather_reading =
  w_source :: string
  w_type :: string
  temperature :: "real option"
  humidity :: "real option"
  pressure :: "real option"
  wind_speed :: "real option"
  wind_direction :: "real option"
  visibility :: "real option"
  weather_condition :: "string option"
  air_quality_impact :: string

text \<open>
  The outcome of one HTTP request inside a \<^verbatim>\<open>try\<close> block: an exception (connection error,
  timeout, a body that does not parse or has the wrong shape), or a status code with the
  parsed payload.
\<close>

datatype 'a response = Raised | Response nat 'a

section \<open>TempoDataSource\<close>

definition generate_mock_tempo_data :: "real \<Rightarrow> real \<Rightarrow> real \<Rightarrow> tempo_reading" where
  "generate_mock_tempo_data lat lon u =
     (let base_no2 = 0.5 + py_fmod ((\<bar>lat\<bar> + \<bar>lon\<bar>) * 0.01) 2.0;
          base_o3 = 35.0 + uniform (- 5) 10 u
      in \<lparr>t_source = ''NASA TEMPO'', t_type = ''satellite'', t_location = (lat, lon),
          t_pollutants =
            [(''no2'', \<lparr>sp_value = py_round_to base_no2 2, sp_unit = ''mol/m2'', sp_quality = ''good''\<rparr>),
             (''o3'', \<lparr>sp_value = py_round_to base_o3 1, sp_unit = ''DU'', sp_quality = ''good''\<rparr>)],
          spatial_resolution = ''2.1km x 4.4km'', temporal_resolution = ''hourly'',
          coverage = ''North America''\<rparr>)"

definition py_not_str :: "string option \<Rightarrow> bool" where
  \<comment> \<open>\<^verbatim>\<open>not s\<close> for an environment variable: unset or empty\<close>
  "py_not_str s = (s = None \<or> s = Some [])"

definition get_satellite_data :: "string option \<Rightarrow> real \<Rightarrow> real \<Rightarrow> real \<Rightarrow> tempo_reading option" where
  "get_satellite_data nasa_tempo_token lat lon u =
     (if py_not_str nasa_tempo_token then Some (generate_mock_tempo_data lat lon u)
      else if lat < 18.0 \<or> lat > 71.0 \<or> lon < - 175.0 \<or> lon > - 40.0 then None
      else Some (generate_mock_tempo_data lat lon u))"

section \<open>OpenAQDataSource\<close>

definition is_india :: "real \<Rightarrow> real \<Rightarrow> bool" where
  "is_india lat lon = (6.0 \<le> lat \<and> lat \<le> 37.0 \<and> 68.0 \<le> lon \<and> lon \<le> 97.0)"

definition is_urban :: "real \<Rightarrow> real \<Rightarrow> bool" where
  "is_urban lat lon =
     (\<bar>lat - of_int (py_round lat)\<bar> < 0.1 \<and> \<bar>lon - of_int (py_round lon)\<bar> < 0.1)"

definition estimate :: "real \<Rightarrow> string \<Rightarrow> measurement" where
  "estimate v src = \<lparr>m_value = Some v, m_unit = Some ''ug/m3'', m_source = Some src\<rparr>"

definition generate_mock_openaq_data :: "random_source \<Rightarrow> real \<Rightarrow> real \<Rightarrow> ground_reading" where
  "generate_mock_openaq_data rs lat lon =
     (let location_seed = seed_of rs (location_key lat lon);
          u0 = draw rs location_seed 0;
          u1 = draw rs location_seed 1;
          u2 = draw rs location_seed 2;
          base_pm25 = (if is_india lat lon
                       then (if is_urban lat lon then uniform 25 65 u0 else uniform 15 45 u0)
                       else (if is_urban lat lon then uniform 8 25 u0 else uniform 5 15 u0));
          base_pm10 = (if is_india lat lon then base_pm25 * uniform 1.5 2.5 u1
                       else base_pm25 * uniform 1.2 2.0 u1);
          base_no2 = (if is_india lat lon
                      then (if is_urban lat lon then uniform 20 60 u2 else uniform 10 30 u2)
                      else (if is_urban lat lon then uniform 15 40 u2 else uniform 5 20 u2));
          mock_station =
            \<lparr>st_name = Some (''Estimated Station '' @ py_format_f 2 lat @ '','' @ py_format_f 2 lon),
             st_coordinates = \<lparr>latitude = Some lat, longitude = Some lon\<rparr>,
             distance_km = 0,
             st_measurements =
               [(''pm25'', estimate (py_round_to base_pm25 1) ''Location-based estimate''),
                (''pm10'', estimate (py_round_to base_pm10 1) ''Location-based estimate''),
                (''no2'', estimate (py_round_to base_no2 1) ''Location-based estimate'')]\<rparr>
      in \<lparr>g_source = ''OpenAQ (Enhanced)'', g_type = ''ground_sensors'', g_location = (lat, lon),
          stations_count = Some 1, stations_data = [mock_station],
          averaged_measurements =
            Some [(''pm25'', \<lparr>a_value = py_round_to base_pm25 1, a_confidence = 75\<rparr>),
                  (''pm10'', \<lparr>a_value = py_round_to base_pm10 1, a_confidence = 75\<rparr>),
                  (''no2'', \<lparr>a_value = py_round_to base_no2 1, a_confidence = 70\<rparr>)],
          g_station_name = None, g_overall_aqi = None, g_pollutants = None\<rparr>)"

text \<open>
  The payload of the OpenAQ \<^verbatim>\<open>latest\<close> endpoint: one entry per location, each with its
  list of measurements. The geodesic distance of \<^verbatim>\<open>geopy\<close> is a parameter; \<^const>\<open>None\<close>
  stands for the exception that the bare \<^verbatim>\<open>except\<close> of \<^verbatim>\<open>_calculate_distance\<close> turns into
  999.
\<close>

record api_measure =
  parameter :: "string option"
  am_value :: "real option"
  am_unit :: "string option"

record api_result =
  location :: "string option"
  api_coordinates :: coordinates
  api_measures :: "api_measure list"
  sourceName :: "string option"

type_synonym geodesic = "real \<times> real \<Rightarrow> real \<times> real \<Rightarrow> real option"

definition calculate_distance :: "geodesic \<Rightarrow> real \<Rightarrow> real \<Rightarrow> real \<Rightarrow> real \<Rightarrow> real" where
  "calculate_distance geo lat1 lon1 lat2 lon2 =
     (case geo (lat1, lon1) (lat2, lon2) of
        None \<Rightarrow> 999.0
      | Some kilometers \<Rightarrow> py_round_to kilometers 2)"

fun add_measures ::
  "string option \<Rightarrow> api_measure list \<Rightarrow> (string, measurement) dict \<Rightarrow> (string, measurement) dict" where
  "add_measures src [] ms = ms"
| "add_measures src (meas # rest) ms =
     add_measures src rest
       (case parameter meas of
          None \<Rightarrow> ms
        | Some param \<Rightarrow>
            if param = [] then ms
            else AList.update param
                   \<lparr>m_value = am_value meas, m_unit = am_unit meas, m_source = src\<rparr> ms)"

fun group_stations ::
  "geodesic \<Rightarrow> real \<Rightarrow> real \<Rightarrow> api_result list \<Rightarrow> (string option, station) dict
   \<Rightarrow> (string option, station) dict" where
  "group_stations geo lat lon [] sd = sd"
| "group_stations geo lat lon (measurement # rest) sd =
     (let station_id = location measurement;
          sd1 = (if map_of sd station_id = None
                 then AList.update station_id
                        \<lparr>st_name = location measurement,
                         st_coordinates = api_coordinates measurement,
                         distance_km =
                           calculate_distance geo lat lon
                             (case latitude (api_coordinates measurement) of None \<Rightarrow> lat | Some x \<Rightarrow> x)
                             (case longitude (api_coordinates measurement) of None \<Rightarrow> lon | Some x \<Rightarrow> x),
                         st_measurements = []\<rparr> sd
                 else sd);
          sd2 = (case map_of sd1 station_id of
                   None \<Rightarrow> sd1
                 | Some st \<Rightarrow>
                     AList.update station_id
                       (st\<lparr>st_measurements :=
                             add_measures (sourceName measurement) (api_measures measurement)
                               (st_measurements st)\<rparr>) sd1)
      in group_stations geo lat lon rest sd2)"

definition process_openaq_data ::
  "geodesic \<Rightarrow> api_result list \<Rightarrow> real \<Rightarrow> real \<Rightarrow> py_error + ground_reading option" where
  "process_openaq_data geo measurements lat lon =
     (if measurements = [] then Inr None
      else
        (let stations = map snd (group_stations geo lat lon measurements [])
         in case calculate_weighted_average stations of
              Inl e \<Rightarrow> Inl e
            | Inr averaged_data \<Rightarrow>
                Inr (Some \<lparr>g_source = ''OpenAQ'', g_type = ''ground_sensors'', g_location = (lat, lon),
                           stations_count = Some (length stations),
                           stations_data = take 3 stations,
                           averaged_measurements = Some averaged_data,
                           g_station_name = None, g_overall_aqi = None, g_pollutants = None\<rparr>)))"

text \<open>
  \<^verbatim>\<open>get_ground_data\<close>: the whole body is one \<^verbatim>\<open>try\<close> whose handler returns the mock data.
  When the first status is not 200 the name \<^verbatim>\<open>measurements\<close> was never bound, and the
  test \<^verbatim>\<open>if not measurements\<close> raises into that handler.
\<close>

definition get_ground_data ::
  "random_source \<Rightarrow> geodesic \<Rightarrow> api_result list response \<Rightarrow> api_result list response
   \<Rightarrow> real \<Rightarrow> real \<Rightarrow> ground_reading option" where
  "get_ground_data rs geo measurements_response broader_response lat lon =
     (case measurements_response of
        Raised \<Rightarrow> Some (generate_mock_openaq_data rs lat lon)
      | Response status_code measurements \<Rightarrow>
          if status_code = 200 \<and> measurements \<noteq> [] then
            (case process_openaq_data geo measurements lat lon of
               Inl e \<Rightarrow> Some (generate_mock_openaq_data rs lat lon)
             | Inr r \<Rightarrow> r)
          else if status_code \<noteq> 200 then Some (generate_mock_openaq_data rs lat lon)
          else
            (case broader_response of
               Raised \<Rightarrow> Some (generate_mock_openaq_data rs lat lon)
             | Response broader_status broader_measurements \<Rightarrow>
                 if broader_status = 200 \<and> broader_measurements \<noteq> [] then
                   (case process_openaq_data geo broader_measurements lat lon of
                      Inl e \<Rightarrow> Some (generate_mock_openaq_data rs lat lon)
                    | Inr r \<Rightarrow> r)
                 else Some (generate_mock_openaq_data rs lat lon)))"

section \<open>WeatherDataSource\<close>

record weather_api =
  main_temp :: "real option"
  main_humidity :: "real option"
  main_pressure :: "real option"
  wind_speed_api :: "real option"
  wind_deg :: "real option"
  visibility_api :: "real option"
  weather_main :: "string option"

definition to_lower :: "char \<Rightarrow> char" where
  "to_lower c =
     (case map_of (zip ''ABCDEFGHIJKLMNOPQRSTUVWXYZ'' ''abcdefghijklmnopqrstuvwxyz'') c of
        None \<Rightarrow> c
      | Some l \<Rightarrow> l)"

fun py_in :: "string \<Rightarrow> string \<Rightarrow> bool" where
  \<comment> \<open>\<^verbatim>\<open>sub in s\<close> on strings\<close>
  "py_in sub [] = (sub = [])"
| "py_in sub (c # cs) = (take (length sub) (c # cs) = sub \<or> py_in sub cs)"

definition assess_weather_impact :: "weather_api \<Rightarrow> string" where
  "assess_weather_impact weather_data =
     (let wind_speed = (case wind_speed_api weather_data of None \<Rightarrow> 0 | Some x \<Rightarrow> x);
          humidity = (case main_humidity weather_data of None \<Rightarrow> 50 | Some x \<Rightarrow> x);
          condition = map to_lower (case weather_main weather_data of None \<Rightarrow> [] | Some x \<Rightarrow> x)
      in if wind_speed > 5 then ''good_dispersion''
         else if py_in ''rain'' condition then ''cleansing''
         else if humidity > 80 then ''poor_dispersion''
         else if wind_speed < 2 then ''stagnant''
         else ''moderate'')"

definition process_weather_data :: "weather_api \<Rightarrow> weather_reading" where
  "process_weather_data data =
     \<lparr>w_source = ''OpenWeather'', w_type = ''weather'',
      temperature = main_temp data, humidity = main_humidity data,
      pressure = main_pressure data, wind_speed = wind_speed_api data,
      wind_direction = wind_deg data, visibility = visibility_api data,
      weather_condition = weather_main data,
      air_quality_impact = assess_weather_impact data\<rparr>"

text \<open>
  The mock weather draws from the module-level generator without seeding it; the results
  of those calls are the fields of \<open>weather_draws\<close>.
\<close>

record weather_draws =
  d_temperature :: real
  d_humidity :: int
  d_pressure :: int
  d_wind_speed :: real
  d_wind_direction :: int
  d_visibility :: int
  d_condition :: string

definition get_mock_weather_data :: "weather_draws \<Rightarrow> real \<Rightarrow> real \<Rightarrow> weather_reading" where
  "get_mock_weather_data d lat lon =
     \<lparr>w_source = ''Mock Weather'', w_type = ''weather'',
      temperature = Some (py_round_to (15 + uniform (- 10) 20 (d_temperature d)) 1),
      humidity = Some (of_int (d_humidity d)),
      pressure = Some (of_int (d_pressure d)),
      wind_speed = Some (py_round_to (uniform 0 15 (d_wind_speed d)) 1),
      wind_direction = Some (of_int (d_wind_direction d)),
      visibility = Some (of_int (d_visibility d)),
      weather_condition = Some (d_condition d),
      air_quality_impact = ''moderate''\<rparr>"

definition get_weather_data ::
  "string option \<Rightarrow> weather_api response \<Rightarrow> weather_draws \<Rightarrow> real \<Rightarrow> real \<Rightarrow> weather_reading option" where
  "get_weather_data openweather_api_key response d lat lon =
     (if py_not_str openweather_api_key \<or> openweather_api_key = Some ''your_openweather_key_here''
      then Some (get_mock_weather_data d lat lon)
      else
        (case response of
           Raised \<Rightarrow> Some (get_mock_weather_data d lat lon)
         | Response status_code data \<Rightarrow>
             if status_code = 200 then Some (process_weather_data data)
             else Some (get_mock_weather_data d lat lon)))"

section \<open>AQICNDataSource\<close>

record aqicn_payload =
  city_name :: "string option"
  iaqi :: "(string, real option) dict"
  aqi :: "int option"

definition pollutant_mapping :: "(string, string) dict" where
  "pollutant_mapping =
     [(''pm25'', ''PM2.5''), (''pm10'', ''PM10''), (''no2'', ''NO2''),
      (''so2'', ''SO2''), (''o3'', ''O3''), (''co'', ''CO'')]"

fun aqicn_pollutants ::
  "(string, string) dict \<Rightarrow> (string, real option) dict \<Rightarrow> (string, pollutant) dict
   \<Rightarrow> (string, pollutant) dict" where
  "aqicn_pollutants [] measurements pollutants = pollutants"
| "aqicn_pollutants ((code, name) # rest) measurements pollutants =
     aqicn_pollutants rest measurements
       (case map_of measurements code of
          None \<Rightarrow> pollutants
        | Some v \<Rightarrow>
            AList.update code
              \<lparr>p_value = v,
               p_unit = (if code = ''pm25'' \<or> code = ''pm10'' then ''AQI'' else ''ug/m3''),
               p_aqi = v, p_source = ''AQICN'', p_spatial_resolution = None\<rparr> pollutants)"

definition process_aqicn_data :: "aqicn_payload \<Rightarrow> real \<Rightarrow> real \<Rightarrow> ground_reading" where
  "process_aqicn_data data lat lon =
     \<lparr>g_source = ''AQICN (World Air Quality Index)'', g_type = ''ground_sensors'',
      g_location = (lat, lon), stations_count = None, stations_data = [],
      averaged_measurements = None,
      g_station_name = Some (case city_name data of None \<Rightarrow> ''Unknown Station'' | Some n \<Rightarrow> n),
      g_overall_aqi = aqi data,
      g_pollutants = Some (aqicn_pollutants pollutant_mapping (iaqi data) [])\<rparr>"

section \<open>DataFusionEngine\<close>

text \<open>
  The dictionary that \<^verbatim>\<open>_calculate_primary_aqi\<close> builds and the two later stages extend.
  Keys that a stage may leave out are options; \<open>satellite_enhancement\<close> is \<^const>\<open>False\<close>
  where the key is absent.
\<close>

record metrics =
  overall_aqi :: int
  pollutants :: "(string, pollutant) dict"
  primary_source :: string
  confidence :: string
  satellite_enhancement :: bool
  data_fusion :: "string option"
  weather_adjusted_aqi :: "int option"
  weather_impact :: "string option"
  weather_data :: "weather_reading option"

record fallback_draws =
  d_base_aqi :: int
  d_pm25_noise :: real

definition generate_fallback_aqi :: "fallback_draws \<Rightarrow> metrics" where
  "generate_fallback_aqi d =
     (let base_aqi = d_base_aqi d
      in \<lparr>overall_aqi = base_aqi,
          pollutants =
            [(''pm25'',
              \<lparr>p_value = Some (py_round_to (of_int base_aqi * 0.4 + uniform (- 5) 5 (d_pm25_noise d)) 1),
               p_unit = ''ug/m3'', p_aqi = Some (of_int base_aqi), p_source = ''estimated'',
               p_spatial_resolution = None\<rparr>)],
          primary_source = ''fallback_model'', confidence = ''low'',
          satellite_enhancement = False, data_fusion = None,
          weather_adjusted_aqi = None, weather_impact = None, weather_data = None\<rparr>)"

definition generate_emergency_fallback_data :: "random_source \<Rightarrow> real \<Rightarrow> real \<Rightarrow> ground_reading" where
  "generate_emergency_fallback_data rs lat lon =
     (let location_seed = seed_of rs (location_key lat lon);
          pm25_base = 25 + py_fmod ((\<bar>lat\<bar> + \<bar>lon\<bar>) * 0.5) 40;
          pm10_base = pm25_base * 1.7;
          no2_base = 10 + py_fmod (\<bar>lat\<bar> * 0.3) 20;
          station =
            \<lparr>st_name = Some (''Emergency Fallback Station '' @ py_format_f 2 lat @ '','' @ py_format_f 2 lon),
             st_coordinates = \<lparr>latitude = Some lat, longitude = Some lon\<rparr>,
             distance_km = 0,
             st_measurements =
               [(''pm25'', estimate (py_round_to (pm25_base + uniform (- 5) 5 (draw rs location_seed 0)) 1)
                            ''Emergency fallback estimate''),
                (''pm10'', estimate (py_round_to (pm10_base + uniform (- 8) 8 (draw rs location_seed 1)) 1)
                            ''Emergency fallback estimate''),
                (''no2'', estimate (py_round_to (no2_base + uniform (- 3) 3 (draw rs location_seed 2)) 1)
                           ''Emergency fallback estimate'')]\<rparr>
      in \<lparr>g_source = ''OpenAQ (Emergency Fallback)'', g_type = ''ground_sensors'',
          g_location = (lat, lon), stations_count = Some 1, stations_data = [station],
          averaged_measurements =
            Some [(''pm25'', \<lparr>a_value = py_round_to (pm25_base + uniform (- 5) 5 (draw rs location_seed 3)) 1,
                             a_confidence = 50\<rparr>),
                  (''pm10'', \<lparr>a_value = py_round_to (pm10_base + uniform (- 8) 8 (draw rs location_seed 4)) 1,
                             a_confidence = 50\<rparr>),
                  (''no2'', \<lparr>a_value = py_round_to (no2_base + uniform (- 3) 3 (draw rs location_seed 5)) 1,
                            a_confidence = 45\<rparr>)],
          g_station_name = None, g_overall_aqi = None, g_pollutants = None\<rparr>)"

text \<open>
  \<^verbatim>\<open>_calculate_primary_aqi\<close>. The tests \<^verbatim>\<open>if overall_aqi:\<close> and
  \<^verbatim>\<open>if not sensor_data.get("averaged_measurements"):\<close> are Python truth tests: zero and the
  empty dictionary count as absent. The converted indices are collected in the order
  pm25, o3, no2.
\<close>

definition ground_pollutant :: "real \<Rightarrow> real \<Rightarrow> pollutant" where
  "ground_pollutant v idx =
     \<lparr>p_value = Some v, p_unit = ''ug/m3'', p_aqi = Some idx, p_source = ''ground_sensor'',
      p_spatial_resolution = None\<rparr>"

definition converted :: "(string, averaged) dict \<Rightarrow> (string \<times> real \<times> real) list" where
  "converted measurements =
     (case map_of measurements ''pm25'' of
        None \<Rightarrow> []
      | Some a \<Rightarrow> [(''pm25'', a_value a, of_int (pm25_to_aqi (a_value a)))]) @
     (case map_of measurements ''o3'' of
        None \<Rightarrow> []
      | Some a \<Rightarrow> [(''o3'', a_value a, o3_to_aqi (a_value a))]) @
     (case map_of measurements ''no2'' of
        None \<Rightarrow> []
      | Some a \<Rightarrow> [(''no2'', a_value a, no2_to_aqi (a_value a))])"

definition py_max_or :: "real \<Rightarrow> real list \<Rightarrow> real" where
  \<comment> \<open>\<^verbatim>\<open>max(xs) if xs else d\<close>\<close>
  "py_max_or d xs = (case xs of [] \<Rightarrow> d | x # rest \<Rightarrow> fold max rest x)"

definition calculate_primary_aqi :: "fallback_draws \<Rightarrow> ground_reading option \<Rightarrow> metrics" where
  "calculate_primary_aqi d sensor_data =
     (case sensor_data of
        None \<Rightarrow> generate_fallback_aqi d
      | Some sd \<Rightarrow>
          (case (if g_source sd = ''AQICN (World Air Quality Index)''
                 then (case g_overall_aqi sd of
                         None \<Rightarrow> None
                       | Some n \<Rightarrow> if n \<noteq> 0 then Some n else None)
                 else None) of
             Some n \<Rightarrow>
               \<lparr>overall_aqi = n,
                pollutants = (case g_pollutants sd of None \<Rightarrow> [] | Some ps \<Rightarrow> ps),
                primary_source = ''aqicn'', confidence = ''high'',
                satellite_enhancement = False, data_fusion = None,
                weather_adjusted_aqi = None, weather_impact = None, weather_data = None\<rparr>
           | None \<Rightarrow>
               (case averaged_measurements sd of
                  None \<Rightarrow> generate_fallback_aqi d
                | Some measurements \<Rightarrow>
                    if measurements = [] then generate_fallback_aqi d
                    else
                      (let parts = converted measurements;
                           aqi_values = map (\<lambda>(k, v, idx). idx) parts;
                           overall = py_max_or 50 aqi_values
                       in \<lparr>overall_aqi = py_int overall,
                           pollutants = map (\<lambda>(k, v, idx). (k, ground_pollutant v idx)) parts,
                           primary_source = ''ground_sensors'',
                           confidence = (if 2 \<le> length aqi_values then ''high'' else ''medium''),
                           satellite_enhancement = False, data_fusion = None,
                           weather_adjusted_aqi = None, weather_impact = None,
                           weather_data = None\<rparr>))))"

definition enhance_with_satellite_data :: "metrics \<Rightarrow> tempo_reading option \<Rightarrow> metrics" where
  "enhance_with_satellite_data primary_metrics tempo_data =
     (case tempo_data of
        None \<Rightarrow> primary_metrics
      | Some t \<Rightarrow>
          if t_pollutants t = [] then primary_metrics
          else
            (let ps = (case map_of (t_pollutants t) ''no2'' of
                         None \<Rightarrow> pollutants primary_metrics
                       | Some sp \<Rightarrow>
                           AList.update ''no2_satellite''
                             \<lparr>p_value = Some (py_round_to (sp_value sp * 0.1) 2),
                              p_unit = ''ug/m3 (estimated)'', p_aqi = None,
                              p_source = ''satellite'',
                              p_spatial_resolution = Some ''2.1km x 4.4km''\<rparr>
                             (pollutants primary_metrics))
             in primary_metrics
                  \<lparr>pollutants := ps, satellite_enhancement := True,
                   data_fusion := Some ''ground_satellite_combined''\<rparr>))"

definition adjustment_factor :: "string \<Rightarrow> real" where
  "adjustment_factor impact =
     (if impact = ''good_dispersion'' then 0.9
      else if impact = ''poor_dispersion'' \<or> impact = ''stagnant'' then 1.1
      else if impact = ''cleansing'' then 0.8
      else 1.0)"

definition apply_weather_corrections :: "metrics \<Rightarrow> weather_reading option \<Rightarrow> metrics" where
  "apply_weather_corrections m weather =
     (case weather of
        None \<Rightarrow> m
      | Some w \<Rightarrow>
          (let impact = air_quality_impact w;
               original_aqi = overall_aqi m
           in m\<lparr>weather_adjusted_aqi :=
                   Some (py_int (of_int original_aqi * adjustment_factor impact)),
                 weather_impact := Some impact,
                 weather_data := Some w\<rparr>))"

text \<open>
  \<^verbatim>\<open>_fuse_data_sources\<close>. Every reading the adapters build is a dictionary with keys, so
  its truth value is that of \<^verbatim>\<open>is not None\<close>. \<^verbatim>\<open>result.update(weather_adjusted)\<close> adds the
  keys of the metrics to the result; the model keeps them in the field \<open>fused\<close>. The echo
  of the four readings under \<^verbatim>\<open>raw_data\<close> is left out.
\<close>

record source_flags =
  satellite :: bool
  ground_sensors :: bool
  aqicn :: bool
  weather :: bool

record fusion_result =
  f_location :: "real \<times> real"
  data_sources :: source_flags
  data_quality :: string
  fused :: metrics
  data_source_errors :: "(string, string) dict option"

definition is_not_none :: "'a option \<Rightarrow> bool" where
  \<comment> \<open>\<^verbatim>\<open>x is not None\<close>\<close>
  "is_not_none x = (case x of None \<Rightarrow> False | Some y \<Rightarrow> True)"

definition py_or :: "'a option \<Rightarrow> 'a option \<Rightarrow> 'a option" where
  "py_or a b = (case a of None \<Rightarrow> b | Some x \<Rightarrow> Some x)"

definition fuse_data_sources ::
  "fallback_draws \<Rightarrow> tempo_reading option \<Rightarrow> ground_reading option \<Rightarrow> ground_reading option
   \<Rightarrow> weather_reading option \<Rightarrow> real \<Rightarrow> real \<Rightarrow> fusion_result" where
  "fuse_data_sources d tempo_data openaq_data aqicn_data weather_rd lat lon =
     (let primary_aqi = calculate_primary_aqi d (py_or aqicn_data openaq_data);
          enhanced_metrics = enhance_with_satellite_data primary_aqi tempo_data;
          weather_adjusted = apply_weather_corrections enhanced_metrics weather_rd
      in \<lparr>f_location = (lat, lon),
          data_sources =
            \<lparr>satellite = is_not_none tempo_data,
             ground_sensors = (is_not_none openaq_data \<or> is_not_none aqicn_data),
             aqicn = is_not_none aqicn_data,
             weather = is_not_none weather_rd\<rparr>,
          data_quality =
            (if is_not_none tempo_data \<and> is_not_none (py_or openaq_data aqicn_data)
                  \<and> is_not_none weather_rd
             then ''high'' else ''medium''),
          fused = weather_adjusted,
          data_source_errors = None\<rparr>)"

text \<open>
  \<^verbatim>\<open>get_comprehensive_air_quality\<close> after \<^verbatim>\<open>asyncio.gather(..., return_exceptions=True)\<close>:
  each of the four results is the exception a task raised or the value it returned.
\<close>

datatype 'a task_result = Failed string | Returned 'a

definition returned :: "'a option task_result \<Rightarrow> 'a option" where
  "returned r = (case r of Failed e \<Rightarrow> None | Returned x \<Rightarrow> x)"

definition failure :: "string \<Rightarrow> 'a task_result \<Rightarrow> (string, string) dict" where
  "failure name r = (case r of Failed e \<Rightarrow> [(name, e)] | Returned x \<Rightarrow> [])"

definition all_sources_failed ::
  "tempo_reading option \<Rightarrow> ground_reading option \<Rightarrow> ground_reading option
   \<Rightarrow> weather_reading option \<Rightarrow> bool" where
  \<comment> \<open>\<^verbatim>\<open>not any([tempo_data, openaq_data, aqicn_data, weather_data])\<close>\<close>
  "all_sources_failed tempo_data openaq_data aqicn_data weather_rd =
     (tempo_data = None \<and> openaq_data = None \<and> aqicn_data = None \<and> weather_rd = None)"

definition combine_results ::
  "random_source \<Rightarrow> fallback_draws \<Rightarrow> tempo_reading option task_result
   \<Rightarrow> ground_reading option task_result \<Rightarrow> ground_reading option task_result
   \<Rightarrow> weather_reading option task_result \<Rightarrow> real \<Rightarrow> real \<Rightarrow> fusion_result" where
  "combine_results rs d r0 r1 r2 r3 lat lon =
     (let tempo_data = returned r0;
          openaq_data = returned r1;
          aqicn_data = returned r2;
          weather_rd = returned r3;
          errors = failure ''tempo'' r0 @ failure ''openaq'' r1 @ failure ''aqicn'' r2
                     @ failure ''weather'' r3;
          openaq_data' =
            (if all_sources_failed tempo_data openaq_data aqicn_data weather_rd
             then Some (generate_emergency_fallback_data rs lat lon)
             else openaq_data);
          combined_data = fuse_data_sources d tempo_data openaq_data' aqicn_data weather_rd lat lon
      in if errors \<noteq> [] then combined_data\<lparr>data_source_errors := Some errors\<rparr>
         else combined_data)"

text \<open>
  The whole of \<^verbatim>\<open>get_comprehensive_air_quality\<close>: the environment holds what the four
  adapters read from outside (credentials, HTTP outcomes, random draws). The AQICN
  adapter is taken by its outcome. The other three adapters catch every exception
  themselves, so their tasks return.
\<close>

record environment =
  nasa_tempo_token :: "string option"
  openweather_api_key :: "string option"
  rng :: random_source
  geo_distance :: geodesic
  openaq_response :: "api_result list response"
  openaq_broader_response :: "api_result list response"
  weather_response :: "weather_api response"
  aqicn_outcome :: "ground_reading option task_result"
  tempo_draw :: real
  mock_weather_draws :: weather_draws
  fallback_aqi_draws :: fallback_draws

definition get_comprehensive_air_quality :: "environment \<Rightarrow> real \<Rightarrow> real \<Rightarrow> fusion_result" where
  "get_comprehensive_air_quality env lat lon =
     combine_results (rng env) (fallback_aqi_draws env)
       (Returned (get_satellite_data (nasa_tempo_token env) lat lon (tempo_draw env)))
       (Returned (get_ground_data (rng env) (geo_distance env) (openaq_response env)
                    (openaq_broader_response env) lat lon))
       (aqicn_outcome env)
       (Returned (get_weather_data (openweather_api_key env) (weather_response env)
                    (mock_weather_draws env) lat lon))
       lat lon"

section \<open>Auxiliary notions for the proofs\<close>



section \<open>Sample inputs\<close>


definition sample_api_result :: "string \<Rightarrow> (string \<times> real) list \<Rightarrow> api_result" where
  "sample_api_result name vals =
     \<lparr>location = Some name,
      api_coordinates = \<lparr>latitude = None, longitude = None\<rparr>,
      api_measures = map (\<lambda>(p, v). \<lparr>parameter = Some p, am_value = Some v, am_unit = Some ''ug/m3''\<rparr>) vals,
      sourceName = Some ''sample''\<rparr>"

definition sample_geodesic :: geodesic where
  "sample_geodesic a b = (if a = b then Some 0 else Some 1)"

definition sample_rng :: random_source where
  "sample_rng = \<lparr>seed_of = (\<lambda>key. length key), draw = (\<lambda>s i. 1 / 2)\<rparr>"

definition sample_openaq_reading :: "(string \<times> real) list \<Rightarrow> ground_reading" where
  "sample_openaq_reading vals =
     \<lparr>g_source = ''OpenAQ'', g_type = ''ground_sensors'', g_location = (0, 0),
      stations_count = Some 1, stations_data = [],
      averaged_measurements = Some (map (\<lambda>(p, v). (p, \<lparr>a_value = v, a_confidence = 10\<rparr>)) vals),
      g_station_name = None, g_overall_aqi = None, g_pollutants = None\<rparr>"

definition sample_weather :: "real \<Rightarrow> real \<Rightarrow> string \<Rightarrow> weather_api" where
  "sample_weather wind hum cond =
     \<lparr>main_temp = Some 20, main_humidity = Some hum, main_pressure = Some 1013,
      wind_speed_api = Some wind, wind_deg = Some 0, visibility_api = Some 10000,
      weather_main = Some cond\<rparr>"

definition sample_fallback_draws :: fallback_draws where
  "sample_fallback_draws = \<lparr>d_base_aqi = 50, d_pm25_noise = 1 / 2\<rparr>"

definition sample_weather_draws :: weather_draws where
  "sample_weather_draws =
     \<lparr>d_temperature = 1 / 2, d_humidity = 50, d_pressure = 1000, d_wind_speed = 1 / 2,
      d_wind_direction = 180, d_visibility = 10000, d_condition = ''Clear''\<rparr>"

text \<open>The demo configuration: no credentials, and every HTTP request fails.\<close>

definition demo_environment :: environment where
  "demo_environment =
     \<lparr>nasa_tempo_token = None, openweather_api_key = None, rng = sample_rng,
      geo_distance = sample_geodesic, openaq_response = Raised, openaq_broader_response = Raised,
      weather_response = Raised, aqicn_outcome = Returned None, tempo_draw = 1 / 2,
      mock_weather_draws = sample_weather_draws, fallback_aqi_draws = sample_fallback_draws\<rparr>"

definition sample_results :: "api_result list" where
  "sample_results =
     [sample_api_result ''A'' [(''pm25'', 10)], sample_api_result ''B'' [(''pm25'', 20)],
      sample_api_result ''C'' [(''pm25'', 30)], sample_api_result ''D'' [(''pm25'', 60), (''o3'', 7)]]"


section \<open>The specification's formulas\<close>

text \<open>
  The weather adjustment as the specification words it: the product is rounded to the
  nearest integer and clamped to the range from 0 to 500.
\<close>

definition spec_weather_adjusted :: "int \<Rightarrow> string \<Rightarrow> int" where
  "spec_weather_adjusted overall impact =
     max 0 (min 500 (py_round (of_int overall * adjustment_factor impact)))"


section \<open>Rounding and truncation\<close>

lemma is_not_none_iff [simp]: "is_not_none x = (x \<noteq> None)"
  by (cases x) (simp_all add: is_not_none_def)

lemma py_round_cases: "py_round x = \<lfloor>x\<rfloor> \<or> py_round x = \<lfloor>x\<rfloor> + 1"
  by (simp add: py_round_def Let_def)

lemma py_round_lower: "of_int a \<le> x \<Longrightarrow> a \<le> py_round x"
proof -
  assume "of_int a \<le> x"
  then have "a \<le> \<lfloor>x\<rfloor>" by (simp add: le_floor_iff)
  then show ?thesis using py_round_cases [of x] by auto
qed

lemma py_round_upper: "x \<le> of_int b \<Longrightarrow> py_round x \<le> b"
proof (cases "x = of_int \<lfloor>x\<rfloor>")
  case True
  assume "x \<le> of_int b"
  then have "\<lfloor>x\<rfloor> \<le> b" by (simp add: floor_le_iff)
  moreover have "py_round x = \<lfloor>x\<rfloor>" using True by (simp add: py_round_def Let_def)
  ultimately show ?thesis by simp
next
  case False
  assume xb: "x \<le> of_int b"
  have "of_int \<lfloor>x\<rfloor> < x" using False of_int_floor_le [of x] by linarith
  then have "of_int \<lfloor>x\<rfloor> < (of_int b :: real)" using xb by linarith
  then have "\<lfloor>x\<rfloor> < b" by simp
  then show ?thesis using py_round_cases [of x] by auto
qed

lemma py_int_nonneg: "0 \<le> x \<Longrightarrow> py_int x = \<lfloor>x\<rfloor>"
  by (simp add: py_int_def)

lemma py_int_bounds: "0 \<le> x \<Longrightarrow> x \<le> of_int b \<Longrightarrow> 0 \<le> py_int x \<and> py_int x \<le> b"
  by (simp add: py_int_def floor_le_iff)

section \<open>The PM2.5 table\<close>

lemma pm25_in_band:
  assumes "b \<in> set pm25_breakpoints" and "in_band b c"
  shows "pm25_to_aqi c = py_round (band_aqi b c)"
proof -
  from assms(1) consider
      "b = (0, 12.0, 0, 50)" | "b = (12.1, 35.4, 51, 100)" | "b = (35.5, 55.4, 101, 150)"
    | "b = (55.5, 150.4, 151, 200)" | "b = (150.5, 250.4, 201, 300)" | "b = (250.5, 500.4, 301, 500)"
    unfolding pm25_breakpoints_def by (simp only: set_simps insert_iff empty_iff) blast
  then show ?thesis
  proof cases
    case 1
    then show ?thesis using assms(2)
      by (simp add: pm25_to_aqi_def pm25_breakpoints_def in_band_def)
  next
    case 2
    then show ?thesis using assms(2)
      by (simp add: pm25_to_aqi_def pm25_breakpoints_def in_band_def)
  next
    case 3
    then show ?thesis using assms(2)
      by (simp add: pm25_to_aqi_def pm25_breakpoints_def in_band_def)
  next
    case 4
    then show ?thesis using assms(2)
      by (simp add: pm25_to_aqi_def pm25_breakpoints_def in_band_def)
  next
    case 5
    then show ?thesis using assms(2)
      by (simp add: pm25_to_aqi_def pm25_breakpoints_def in_band_def)
  next
    case 6
    then show ?thesis using assms(2)
      by (simp add: pm25_to_aqi_def pm25_breakpoints_def in_band_def)
  qed
qed

lemma pm25_no_band:
  "\<forall>b \<in> set pm25_breakpoints. \<not> in_band b c \<Longrightarrow> pm25_to_aqi c = 500"
  by (simp add: pm25_to_aqi_def pm25_breakpoints_def)




text \<open>
  C2: the converters are not monotonic. Between two PM2.5 bands the loop finds no band
  and returns 500; the O3 and NO2 branches start their interpolation one unit above the
  bound of the previous branch and dip below it.
\<close>

theorem converters_not_monotone:
  "pm25_to_aqi 12.05 = 500 \<and> pm25_to_aqi 12.1 = 51
   \<and> o3_to_aqi 54 = 50 \<and> o3_to_aqi 54.5 < 50
   \<and> no2_to_aqi 53 = 50 \<and> no2_to_aqi 53.01 < 50"
proof -
  have "pm25_to_aqi 12.05 = 500"
    by (simp add: pm25_to_aqi_def pm25_breakpoints_def in_band_def)
  moreover have "pm25_to_aqi 12.1 = 51"
    by (simp add: pm25_to_aqi_def pm25_breakpoints_def in_band_def band_aqi_def py_round_def)
  moreover have "o3_to_aqi 54 = 50 \<and> o3_to_aqi 54.5 < 50"
    by (simp add: o3_to_aqi_def)
  moreover have "no2_to_aqi 53 = 50 \<and> no2_to_aqi 53.01 < 50"
    by (simp add: no2_to_aqi_def)
  ultimately show ?thesis by blast
qed

section \<open>Bounds of the converters\<close>

lemma band_value_bounds:
  assumes ib: "in_band (lo, hi, of_int a, of_int b) c" and lh: "lo < hi" and ab: "a \<le> b"
  shows "a \<le> py_round (band_aqi (lo, hi, of_int a, of_int b) c)
         \<and> py_round (band_aqi (lo, hi, of_int a, of_int b) c) \<le> b"
proof -
  let ?v = "band_aqi (lo, hi, of_int a, of_int b) c"
  have c: "lo \<le> c" "c \<le> hi" using ib by (simp_all add: in_band_def)
  have s: "0 \<le> (of_int b - of_int a) / (hi - lo)" using lh ab by simp
  have v: "?v = ((of_int b - of_int a) / (hi - lo)) * (c - lo) + of_int a"
    by (simp only: band_aqi_def prod.case)
  have "0 \<le> ((of_int b - of_int a) / (hi - lo)) * (c - lo)"
    using s c by (intro mult_nonneg_nonneg) auto
  then have lower: "of_int a \<le> ?v" unfolding v by linarith
  have "((of_int b - of_int a) / (hi - lo)) * (c - lo) \<le> ((of_int b - of_int a) / (hi - lo)) * (hi - lo)"
    using s c by (intro mult_left_mono) auto
  also have "\<dots> = of_int b - of_int a" using lh by simp
  finally have upper: "?v \<le> of_int b" unfolding v by linarith
  show ?thesis using py_round_lower [OF lower] py_round_upper [OF upper] by blast
qed

lemma pm25_band_bounds:
  assumes "b \<in> set pm25_breakpoints" and "in_band b c"
  shows "0 \<le> py_round (band_aqi b c) \<and> py_round (band_aqi b c) \<le> 500"
proof -
  from assms(1) consider
      "b = (0, 12.0, 0, 50)" | "b = (12.1, 35.4, 51, 100)" | "b = (35.5, 55.4, 101, 150)"
    | "b = (55.5, 150.4, 151, 200)" | "b = (150.5, 250.4, 201, 300)" | "b = (250.5, 500.4, 301, 500)"
    unfolding pm25_breakpoints_def by (simp only: set_simps insert_iff empty_iff) blast
  then show ?thesis
  proof cases
    case 1
    then show ?thesis using assms(2) band_value_bounds [of 0 "12.0" 0 50 c] by simp
  next
    case 2
    then show ?thesis using assms(2) band_value_bounds [of "12.1" "35.4" 51 100 c] by simp
  next
    case 3
    then show ?thesis using assms(2) band_value_bounds [of "35.5" "55.4" 101 150 c] by simp
  next
    case 4
    then show ?thesis using assms(2) band_value_bounds [of "55.5" "150.4" 151 200 c] by simp
  next
    case 5
    then show ?thesis using assms(2) band_value_bounds [of "150.5" "250.4" 201 300 c] by simp
  next
    case 6
    then show ?thesis using assms(2) band_value_bounds [of "250.5" "500.4" 301 500 c] by simp
  qed
qed

lemma pm25_bounds: "0 \<le> pm25_to_aqi c \<and> pm25_to_aqi c \<le> 500"
proof (cases "\<exists>b \<in> set pm25_breakpoints. in_band b c")
  case True
  then obtain b where b: "b \<in> set pm25_breakpoints" "in_band b c" by blast
  show ?thesis using pm25_in_band [OF b] pm25_band_bounds [OF b] by simp
next
  case False
  then show ?thesis using pm25_no_band [of c] by simp
qed

lemma o3_upper: "o3_to_aqi c \<le> 500"
  unfolding o3_to_aqi_def by (simp add: min_def)

lemma o3_lower: "0 \<le> c \<Longrightarrow> 0 \<le> o3_to_aqi c"
proof -
  assume c: "0 \<le> c"
  consider "c \<le> 54" | "54 < c" "c \<le> 70" | "70 < c" "c \<le> 85" | "85 < c" "c \<le> 105" | "105 < c"
    by linarith
  then show ?thesis
  proof cases
    case 1 then show ?thesis using c by (simp add: o3_to_aqi_def)
  next
    case 2 then show ?thesis by (simp add: o3_to_aqi_def field_simps)
  next
    case 3 then show ?thesis by (simp add: o3_to_aqi_def field_simps)
  next
    case 4 then show ?thesis by (simp add: o3_to_aqi_def field_simps)
  next
    case 5 then show ?thesis by (simp add: o3_to_aqi_def min_def field_simps)
  qed
qed

lemma no2_upper: "no2_to_aqi c \<le> 500"
  unfolding no2_to_aqi_def by (simp add: min_def)

lemma no2_lower: "0 \<le> c \<Longrightarrow> 0 \<le> no2_to_aqi c"
proof -
  assume c: "0 \<le> c"
  consider "c \<le> 53" | "53 < c" "c \<le> 100" | "100 < c" "c \<le> 360" | "360 < c"
    by linarith
  then show ?thesis
  proof cases
    case 1 then show ?thesis using c by (simp add: no2_to_aqi_def)
  next
    case 2 then show ?thesis by (simp add: no2_to_aqi_def field_simps)
  next
    case 3 then show ?thesis by (simp add: no2_to_aqi_def field_simps)
  next
    case 4 then show ?thesis by (simp add: no2_to_aqi_def min_def field_simps)
  qed
qed

section \<open>Spatial averaging: the accumulators\<close>

















section \<open>Spatial averaging: the result\<close>














section \<open>The adapters never return nothing\<close>

lemma process_openaq_data_some:
  "measurements \<noteq> [] \<Longrightarrow> process_openaq_data geo measurements lat lon = Inr r \<Longrightarrow> r \<noteq> None"
  by (auto simp: process_openaq_data_def Let_def split: sum.splits)

lemma get_ground_data_some: "get_ground_data rs geo r1 r2 lat lon \<noteq> None"
proof (cases r1)
  case Raised
  then show ?thesis by (simp add: get_ground_data_def)
next
  case (Response status ms)
  show ?thesis
  proof (cases "status = 200 \<and> ms \<noteq> []")
    case True
    then show ?thesis using Response process_openaq_data_some [of ms geo lat lon]
      by (cases "process_openaq_data geo ms lat lon") (simp_all add: get_ground_data_def)
  next
    case False
    note outer = this
    show ?thesis
    proof (cases "status \<noteq> 200")
      case True
      then show ?thesis using Response by (simp add: get_ground_data_def)
    next
      case False
      then have e: "status = 200" "ms = []" using outer by auto
      show ?thesis
      proof (cases r2)
        case Raised
        then show ?thesis using Response e by (simp add: get_ground_data_def)
      next
        case (Response status2 ms2)
        note r2 = this
        show ?thesis
        proof (cases "status2 = 200 \<and> ms2 \<noteq> []")
          case True
          then show ?thesis using \<open>r1 = Response status ms\<close> e r2
              process_openaq_data_some [of ms2 geo lat lon]
            by (cases "process_openaq_data geo ms2 lat lon") (simp_all add: get_ground_data_def)
        next
          case False
          then show ?thesis using \<open>r1 = Response status ms\<close> e r2
            by (auto simp add: get_ground_data_def)
        qed
      qed
    qed
  qed
qed

lemma get_weather_data_some: "get_weather_data key resp d lat lon \<noteq> None"
  by (cases resp) (simp_all add: get_weather_data_def)

lemma returned_simps: "returned (Returned x) = x" "returned (Failed e) = None"
  by (simp_all add: returned_def)

lemma failure_simps: "failure n (Returned x) = []" "failure n (Failed e) = [(n, e)]"
  by (simp_all add: failure_def)

lemma combine_flags:
  "data_sources (combine_results rs d r0 r1 r2 r3 lat lon) =
     \<lparr>satellite = (returned r0 \<noteq> None),
      ground_sensors = (returned r1 \<noteq> None \<or> returned r2 \<noteq> None
                        \<or> all_sources_failed (returned r0) (returned r1) (returned r2) (returned r3)),
      aqicn = (returned r2 \<noteq> None),
      weather = (returned r3 \<noteq> None)\<rparr>"
  by (simp add: combine_results_def fuse_data_sources_def Let_def)

lemma combine_quality:
  "data_quality (combine_results rs d r0 r1 r2 r3 lat lon) =
     (if returned r0 \<noteq> None \<and> (returned r1 \<noteq> None \<or> returned r2 \<noteq> None) \<and> returned r3 \<noteq> None
      then ''high'' else ''medium'')"
  by (simp add: combine_results_def fuse_data_sources_def Let_def py_or_def all_sources_failed_def
      split: option.splits)


lemma comprehensive_flags:
  "data_sources (get_comprehensive_air_quality env lat lon) =
     \<lparr>satellite = (get_satellite_data (nasa_tempo_token env) lat lon (tempo_draw env) \<noteq> None),
      ground_sensors = True,
      aqicn = (returned (aqicn_outcome env) \<noteq> None),
      weather = True\<rparr>"
  unfolding get_comprehensive_air_quality_def combine_flags returned_simps
  using get_ground_data_some get_weather_data_some by simp

lemma comprehensive_quality:
  "data_quality (get_comprehensive_air_quality env lat lon) =
     (if get_satellite_data (nasa_tempo_token env) lat lon (tempo_draw env) \<noteq> None
      then ''high'' else ''medium'')"
  unfolding get_comprehensive_air_quality_def combine_quality returned_simps
  using get_ground_data_some get_weather_data_some by simp

text \<open>
  C10: the ground-sensor fetch and the weather fetch never return \<open>None\<close>, and each of their
  failure paths ends in the mock data; so the emergency branch of
  \<^verbatim>\<open>get_comprehensive_air_quality\<close> is not taken, the flags \<open>ground_sensors\<close> and
  \<open>weather\<close> are true, and \<open>data_quality\<close> is "high" exactly when the satellite fetch
  returned a reading.
\<close>

theorem ground_and_weather_always_present:
  "get_ground_data rs g r1 r2 lat lon \<noteq> None
   \<and> get_weather_data k resp wd lat lon \<noteq> None
   \<and> get_ground_data rs g Raised r2 lat lon = Some (generate_mock_openaq_data rs lat lon)
   \<and> (status \<noteq> 200 \<longrightarrow>
        get_ground_data rs g (Response status ms) r2 lat lon = Some (generate_mock_openaq_data rs lat lon))
   \<and> get_ground_data rs g (Response 200 []) Raised lat lon = Some (generate_mock_openaq_data rs lat lon)
   \<and> get_ground_data rs g (Response 200 []) (Response status []) lat lon
        = Some (generate_mock_openaq_data rs lat lon)
   \<and> get_weather_data None resp wd lat lon = Some (get_mock_weather_data wd lat lon)
   \<and> get_weather_data k Raised wd lat lon = Some (get_mock_weather_data wd lat lon)
   \<and> (status \<noteq> 200 \<longrightarrow>
        get_weather_data k (Response status wdata) wd lat lon = Some (get_mock_weather_data wd lat lon))
   \<and> \<not> all_sources_failed
          (get_satellite_data (nasa_tempo_token env) lat lon (tempo_draw env))
          (get_ground_data (rng env) (geo_distance env) (openaq_response env)
             (openaq_broader_response env) lat lon)
          (returned (aqicn_outcome env))
          (get_weather_data (openweather_api_key env) (weather_response env)
             (mock_weather_draws env) lat lon)
   \<and> ground_sensors (data_sources (get_comprehensive_air_quality env lat lon))
   \<and> weather (data_sources (get_comprehensive_air_quality env lat lon))
   \<and> ((data_quality (get_comprehensive_air_quality env lat lon) = ''high'')
        = (get_satellite_data (nasa_tempo_token env) lat lon (tempo_draw env) \<noteq> None))"
proof -
  have a: "get_ground_data rs g Raised r2 lat lon = Some (generate_mock_openaq_data rs lat lon)"
    by (simp add: get_ground_data_def)
  have b: "status \<noteq> 200 \<longrightarrow>
        get_ground_data rs g (Response status ms) r2 lat lon = Some (generate_mock_openaq_data rs lat lon)"
    by (simp add: get_ground_data_def)
  have c: "get_ground_data rs g (Response 200 []) Raised lat lon = Some (generate_mock_openaq_data rs lat lon)"
    by (simp add: get_ground_data_def)
  have d: "get_ground_data rs g (Response 200 []) (Response status []) lat lon
        = Some (generate_mock_openaq_data rs lat lon)"
    by (simp add: get_ground_data_def)
  have e: "get_weather_data None resp wd lat lon = Some (get_mock_weather_data wd lat lon)"
    by (simp add: get_weather_data_def py_not_str_def)
  have f: "get_weather_data k Raised wd lat lon = Some (get_mock_weather_data wd lat lon)"
    by (simp add: get_weather_data_def)
  have h: "status \<noteq> 200 \<longrightarrow>
        get_weather_data k (Response status wdata) wd lat lon = Some (get_mock_weather_data wd lat lon)"
    by (simp add: get_weather_data_def)
  have i: "\<not> all_sources_failed
          (get_satellite_data (nasa_tempo_token env) lat lon (tempo_draw env))
          (get_ground_data (rng env) (geo_distance env) (openaq_response env)
             (openaq_broader_response env) lat lon)
          (returned (aqicn_outcome env))
          (get_weather_data (openweather_api_key env) (weather_response env)
             (mock_weather_draws env) lat lon)"
    using get_ground_data_some by (simp add: all_sources_failed_def)
  have j: "ground_sensors (data_sources (get_comprehensive_air_quality env lat lon))"
    "weather (data_sources (get_comprehensive_air_quality env lat lon))"
    by (simp_all add: comprehensive_flags)
  have q: "(data_quality (get_comprehensive_air_quality env lat lon) = ''high'')
        = (get_satellite_data (nasa_tempo_token env) lat lon (tempo_draw env) \<noteq> None)"
    by (simp add: comprehensive_quality)
  show ?thesis
    using get_ground_data_some [of rs g r1 r2 lat lon] get_weather_data_some [of k resp wd lat lon]
      a b c d e f h i j q
    by blast
qed

theorem ground_and_weather_always_present_witness:
  "(500 :: nat) \<noteq> 200
   \<and> get_ground_data sample_rng sample_geodesic (Response 500 sample_results) Raised 0 0
       = Some (generate_mock_openaq_data sample_rng 0 0)
   \<and> get_weather_data (Some ''key'') (Response 500 (sample_weather 1 50 ''Clear'')) sample_weather_draws 0 0
       = Some (get_mock_weather_data sample_weather_draws 0 0)
   \<and> ground_sensors (data_sources (get_comprehensive_air_quality demo_environment 0 0))
   \<and> weather (data_sources (get_comprehensive_air_quality demo_environment 0 0))"
  using ground_and_weather_always_present [where status = 500 and rs = sample_rng
      and g = sample_geodesic and ms = sample_results and ?r2.0 = Raised and lat = 0 and lon = 0
      and k = "Some ''key''" and wdata = "sample_weather 1 50 ''Clear''" and wd = sample_weather_draws
      and env = demo_environment]
  by simp

section \<open>Satellite coverage\<close>




section \<open>Weather adjustment\<close>

lemma py_int_scaled:
  assumes "0 \<le> n" and "0 \<le> k"
  shows "py_int (of_int n * (of_int k / 10)) = (k * n) div 10"
proof -
  have e: "(of_int n :: real) * (of_int k / 10) = of_int (k * n) / of_int 10" by simp
  have "0 \<le> (of_int (k * n) :: real) / of_int 10" using assms by simp
  then have "py_int (of_int (k * n) / of_int 10) = \<lfloor>(of_int (k * n) :: real) / of_int 10\<rfloor>"
    by (rule py_int_nonneg)
  also have "\<dots> = (k * n) div 10" by (rule floor_divide_of_int_eq)
  finally show ?thesis unfolding e .
qed

lemma weather_adjusted_value:
  "weather_adjusted_aqi (apply_weather_corrections m (Some w)) =
     Some (py_int (of_int (overall_aqi m) * adjustment_factor (air_quality_impact w)))"
  by (simp add: apply_weather_corrections_def Let_def)

lemma weather_keeps_overall:
  "overall_aqi (apply_weather_corrections m wo) = overall_aqi m"
  by (cases wo) (simp_all add: apply_weather_corrections_def Let_def)

lemma weather_keeps_confidence:
  "confidence (apply_weather_corrections m wo) = confidence m"
  "primary_source (apply_weather_corrections m wo) = primary_source m"
  by (cases wo; simp add: apply_weather_corrections_def Let_def)+

lemma weather_absent: "weather_adjusted_aqi (apply_weather_corrections m None) = weather_adjusted_aqi m"
  by (simp add: apply_weather_corrections_def)

lemma enhance_keeps:
  "overall_aqi (enhance_with_satellite_data m t) = overall_aqi m"
  "confidence (enhance_with_satellite_data m t) = confidence m"
  "primary_source (enhance_with_satellite_data m t) = primary_source m"
  "weather_adjusted_aqi (enhance_with_satellite_data m t) = weather_adjusted_aqi m"
  by (cases t; simp add: enhance_with_satellite_data_def Let_def)+

text \<open>
  C5 as stated fails: the code truncates the product and does not clamp it. An index of
  56 under "cleansing" becomes 44 (the rounded product is 45), and an index of 500 under
  "stagnant" becomes 550 (the clamped value is 500).
\<close>

theorem weather_adjustment_not_rounded_clamped:
  "air_quality_impact (process_weather_data (sample_weather 3 50 ''Rain'')) = ''cleansing''
   \<and> weather_adjusted_aqi
        (apply_weather_corrections (generate_fallback_aqi \<lparr>d_base_aqi = 56, d_pm25_noise = 1 / 2\<rparr>)
           (Some (process_weather_data (sample_weather 3 50 ''Rain'')))) = Some 44
   \<and> spec_weather_adjusted 56 ''cleansing'' = 45
   \<and> air_quality_impact (process_weather_data (sample_weather 1 50 ''Clear'')) = ''stagnant''
   \<and> weather_adjusted_aqi
        (apply_weather_corrections
           (calculate_primary_aqi sample_fallback_draws
              (Some (process_aqicn_data \<lparr>city_name = None, iaqi = [], aqi = Some 500\<rparr> 0 0)))
           (Some (process_weather_data (sample_weather 1 50 ''Clear'')))) = Some 550
   \<and> spec_weather_adjusted 500 ''stagnant'' = 500"
proof -
  have i1: "air_quality_impact (process_weather_data (sample_weather 3 50 ''Rain'')) = ''cleansing''"
    by (simp add: process_weather_data_def assess_weather_impact_def sample_weather_def to_lower_def)
  have i2: "air_quality_impact (process_weather_data (sample_weather 1 50 ''Clear'')) = ''stagnant''"
    by (simp add: process_weather_data_def assess_weather_impact_def sample_weather_def to_lower_def)
  have o1: "overall_aqi (generate_fallback_aqi \<lparr>d_base_aqi = 56, d_pm25_noise = 1 / 2\<rparr>) = 56"
    by (simp add: generate_fallback_aqi_def)
  have o2: "overall_aqi (calculate_primary_aqi sample_fallback_draws
              (Some (process_aqicn_data \<lparr>city_name = None, iaqi = [], aqi = Some 500\<rparr> 0 0))) = 500"
    by (simp add: calculate_primary_aqi_def process_aqicn_data_def)
  have a1: "py_int (of_int 56 * adjustment_factor ''cleansing'') = 44"
    by (simp add: adjustment_factor_def py_int_def)
  have a2: "py_int (of_int 500 * adjustment_factor ''stagnant'') = 550"
    by (simp add: adjustment_factor_def py_int_def)
  have s1: "spec_weather_adjusted 56 ''cleansing'' = 45"
    by (simp add: spec_weather_adjusted_def adjustment_factor_def py_round_def)
  have s2: "spec_weather_adjusted 500 ''stagnant'' = 500"
    by (simp add: spec_weather_adjusted_def adjustment_factor_def py_round_def)
  show ?thesis
    unfolding weather_adjusted_value i1 i2 o1 o2 a1 a2 s1 s2 by simp
qed

text \<open>
  C5, as the code has it: whenever a weather reading is present, the weather-adjusted
  index is \<open>int(overall_aqi * factor)\<close>, the product truncated towards zero and not
  clamped, with the factor 0.9 for good_dispersion, 1.1 for poor_dispersion and stagnant,
  0.8 for cleansing and 1.0 otherwise. For a non-negative overall index that is the
  integer quotient of 9, 11 or 8 times the index by 10.
\<close>

theorem weather_adjustment_truncates:
  "weather_adjusted_aqi (apply_weather_corrections m (Some w)) =
     Some (py_int (of_int (overall_aqi m) *
             (if air_quality_impact w = ''good_dispersion'' then 0.9
              else if air_quality_impact w = ''poor_dispersion'' \<or> air_quality_impact w = ''stagnant''
                   then 1.1
              else if air_quality_impact w = ''cleansing'' then 0.8
              else 1.0)))
   \<and> (0 \<le> overall_aqi m \<longrightarrow>
        weather_adjusted_aqi (apply_weather_corrections m (Some w)) =
          Some (if air_quality_impact w = ''good_dispersion'' then (9 * overall_aqi m) div 10
                else if air_quality_impact w = ''poor_dispersion'' \<or> air_quality_impact w = ''stagnant''
                     then (11 * overall_aqi m) div 10
                else if air_quality_impact w = ''cleansing'' then (8 * overall_aqi m) div 10
                else overall_aqi m))"
proof -
  have first: "weather_adjusted_aqi (apply_weather_corrections m (Some w)) =
     Some (py_int (of_int (overall_aqi m) *
             (if air_quality_impact w = ''good_dispersion'' then 0.9
              else if air_quality_impact w = ''poor_dispersion'' \<or> air_quality_impact w = ''stagnant''
                   then 1.1
              else if air_quality_impact w = ''cleansing'' then 0.8
              else 1.0)))"
    unfolding weather_adjusted_value adjustment_factor_def ..
  have second: "weather_adjusted_aqi (apply_weather_corrections m (Some w)) =
          Some (if air_quality_impact w = ''good_dispersion'' then (9 * overall_aqi m) div 10
                else if air_quality_impact w = ''poor_dispersion'' \<or> air_quality_impact w = ''stagnant''
                     then (11 * overall_aqi m) div 10
                else if air_quality_impact w = ''cleansing'' then (8 * overall_aqi m) div 10
                else overall_aqi m)"
    if nn: "0 \<le> overall_aqi m"
  proof -
    have f9: "py_int (of_int (overall_aqi m) * 0.9) = (9 * overall_aqi m) div 10"
      using py_int_scaled [OF nn, of 9] by simp
    have f11: "py_int (of_int (overall_aqi m) * 1.1) = (11 * overall_aqi m) div 10"
      using py_int_scaled [OF nn, of 11] by simp
    have f8: "py_int (of_int (overall_aqi m) * 0.8) = (8 * overall_aqi m) div 10"
      using py_int_scaled [OF nn, of 8] by simp
    have f1: "py_int (of_int (overall_aqi m) * 1.0) = overall_aqi m"
      using nn by (simp add: py_int_def)
    show ?thesis
      unfolding weather_adjusted_value adjustment_factor_def
      using f9 f11 f8 f1 by (simp split: if_splits)
  qed
  from first second show ?thesis by blast
qed

theorem weather_adjustment_truncates_witness:
  "0 \<le> overall_aqi (generate_fallback_aqi \<lparr>d_base_aqi = 56, d_pm25_noise = 1 / 2\<rparr>)
   \<and> weather_adjusted_aqi
        (apply_weather_corrections (generate_fallback_aqi \<lparr>d_base_aqi = 56, d_pm25_noise = 1 / 2\<rparr>)
           (Some (process_weather_data (sample_weather 3 50 ''Rain'')))) = Some ((8 * 56) div 10)"
proof -
  have i1: "air_quality_impact (process_weather_data (sample_weather 3 50 ''Rain'')) = ''cleansing''"
    by (simp add: process_weather_data_def assess_weather_impact_def sample_weather_def to_lower_def)
  have o1: "overall_aqi (generate_fallback_aqi \<lparr>d_base_aqi = 56, d_pm25_noise = 1 / 2\<rparr>) = 56"
    by (simp add: generate_fallback_aqi_def)
  from weather_adjustment_truncates
         [of "generate_fallback_aqi \<lparr>d_base_aqi = 56, d_pm25_noise = 1 / 2\<rparr>"
             "process_weather_data (sample_weather 3 50 ''Rain'')"]
  show ?thesis unfolding i1 o1 by (simp add: py_int_def)
qed

section \<open>The primary index\<close>

lemma fused_overall:
  "overall_aqi (fused (fuse_data_sources d t oq aq w lat lon))
     = overall_aqi (calculate_primary_aqi d (py_or aq oq))"
  "confidence (fused (fuse_data_sources d t oq aq w lat lon))
     = confidence (calculate_primary_aqi d (py_or aq oq))"
  "primary_source (fused (fuse_data_sources d t oq aq w lat lon))
     = primary_source (calculate_primary_aqi d (py_or aq oq))"
  by (simp_all add: fuse_data_sources_def Let_def weather_keeps_overall weather_keeps_confidence
      enhance_keeps)

lemma fused_weather_adjusted:
  "weather_adjusted_aqi (fused (fuse_data_sources d t oq aq (Some w) lat lon))
     = Some (py_int (of_int (overall_aqi (calculate_primary_aqi d (py_or aq oq)))
                     * adjustment_factor (air_quality_impact w)))"
  "weather_adjusted_aqi (fused (fuse_data_sources d t oq aq None lat lon))
     = weather_adjusted_aqi (calculate_primary_aqi d (py_or aq oq))"
  by (simp_all add: fuse_data_sources_def Let_def weather_adjusted_value weather_absent enhance_keeps)

lemma primary_none: "calculate_primary_aqi d None = generate_fallback_aqi d"
  by (simp add: calculate_primary_aqi_def)

lemma primary_aqicn:
  assumes "g_source a = ''AQICN (World Air Quality Index)''" and "g_overall_aqi a = Some n" and "n \<noteq> 0"
  shows "overall_aqi (calculate_primary_aqi d (Some a)) = n"
    and "confidence (calculate_primary_aqi d (Some a)) = ''high''"
    and "primary_source (calculate_primary_aqi d (Some a)) = ''aqicn''"
  using assms by (simp_all add: calculate_primary_aqi_def)

lemma primary_no_index:
  assumes "g_source a \<noteq> ''AQICN (World Air Quality Index)'' \<or> g_overall_aqi a = None
           \<or> g_overall_aqi a = Some 0"
    and "averaged_measurements a = None \<or> averaged_measurements a = Some []"
  shows "calculate_primary_aqi d (Some a) = generate_fallback_aqi d"
  using assms by (auto simp add: calculate_primary_aqi_def)

lemma primary_averaged:
  assumes "g_source g \<noteq> ''AQICN (World Air Quality Index)'' \<or> g_overall_aqi g = None
           \<or> g_overall_aqi g = Some 0"
    and "averaged_measurements g = Some ms" and "ms \<noteq> []"
  shows "overall_aqi (calculate_primary_aqi d (Some g))
           = py_int (py_max_or 50 (map (\<lambda>(k, v, idx). idx) (converted ms)))"
    and "confidence (calculate_primary_aqi d (Some g))
           = (if 2 \<le> length (converted ms) then ''high'' else ''medium'')"
    and "primary_source (calculate_primary_aqi d (Some g)) = ''ground_sensors''"
  using assms by (auto simp add: calculate_primary_aqi_def Let_def)

lemma converted_cases:
  "map (\<lambda>(k, v, idx). (k, idx)) (converted ms) =
     (case map_of ms ''pm25'' of None \<Rightarrow> [] | Some a \<Rightarrow> [(''pm25'', of_int (pm25_to_aqi (a_value a)))]) @
     (case map_of ms ''o3'' of None \<Rightarrow> [] | Some a \<Rightarrow> [(''o3'', o3_to_aqi (a_value a))]) @
     (case map_of ms ''no2'' of None \<Rightarrow> [] | Some a \<Rightarrow> [(''no2'', no2_to_aqi (a_value a))])"
  by (simp add: converted_def split: option.splits)




lemma converted_indices:
  "map (\<lambda>(k, v, idx). idx) (converted ms) = map snd (map (\<lambda>(k, v, idx). (k, idx)) (converted ms))"
  by (simp add: case_prod_unfold comp_def)







section \<open>All sources failed\<close>

lemma fallback_fields:
  "overall_aqi (generate_fallback_aqi d) = d_base_aqi d"
  "confidence (generate_fallback_aqi d) = ''low''"
  "weather_adjusted_aqi (generate_fallback_aqi d) = None"
  by (simp_all add: generate_fallback_aqi_def Let_def)

lemma emergency_source:
  "g_source (generate_emergency_fallback_data rs lat lon) = ''OpenAQ (Emergency Fallback)''"
  by (simp add: generate_emergency_fallback_data_def Let_def)

lemma emergency_averaged:
  "\<exists>a b c. averaged_measurements (generate_emergency_fallback_data rs lat lon)
             = Some [(''pm25'', a), (''pm10'', b), (''no2'', c)]"
  by (simp add: generate_emergency_fallback_data_def Let_def)

lemma converted_three: "length (converted [(''pm25'', a), (''pm10'', b), (''no2'', c)]) = 2"
  by (simp add: converted_def)

lemma emergency_primary:
  "confidence (calculate_primary_aqi d (Some (generate_emergency_fallback_data rs lat lon))) = ''high''"
  "primary_source (calculate_primary_aqi d (Some (generate_emergency_fallback_data rs lat lon)))
     = ''ground_sensors''"
proof -
  let ?g = "generate_emergency_fallback_data rs lat lon"
  obtain a b c where av: "averaged_measurements ?g = Some [(''pm25'', a), (''pm10'', b), (''no2'', c)]"
    using emergency_averaged by blast
  have s: "g_source ?g \<noteq> ''AQICN (World Air Quality Index)'' \<or> g_overall_aqi ?g = None
           \<or> g_overall_aqi ?g = Some 0"
    by (simp add: emergency_source)
  have ne: "[(''pm25'', a), (''pm10'', b), (''no2'', c)] \<noteq> []" by simp
  show "confidence (calculate_primary_aqi d (Some ?g)) = ''high''"
    unfolding primary_averaged(2) [OF s av ne] converted_three by simp
  show "primary_source (calculate_primary_aqi d (Some ?g)) = ''ground_sensors''"
    by (rule primary_averaged(3) [OF s av ne])
qed

lemma all_failed_fusion:
  "combine_results rs d (Failed e0) (Failed e1) (Failed e2) (Failed e3) lat lon =
     (fuse_data_sources d None (Some (generate_emergency_fallback_data rs lat lon)) None None lat lon)
       \<lparr>data_source_errors := Some [(''tempo'', e0), (''openaq'', e1), (''aqicn'', e2), (''weather'', e3)]\<rparr>"
  by (simp add: combine_results_def Let_def returned_simps failure_simps all_sources_failed_def)

lemma all_failed_fields:
  "data_source_errors (combine_results rs d (Failed e0) (Failed e1) (Failed e2) (Failed e3) lat lon)
     = Some [(''tempo'', e0), (''openaq'', e1), (''aqicn'', e2), (''weather'', e3)]"
  "confidence (fused (combine_results rs d (Failed e0) (Failed e1) (Failed e2) (Failed e3) lat lon)) = ''high''"
  "primary_source (fused (combine_results rs d (Failed e0) (Failed e1) (Failed e2) (Failed e3) lat lon))
     = ''ground_sensors''"
  "data_quality (combine_results rs d (Failed e0) (Failed e1) (Failed e2) (Failed e3) lat lon) = ''medium''"
  "data_sources (combine_results rs d (Failed e0) (Failed e1) (Failed e2) (Failed e3) lat lon)
     = \<lparr>satellite = False, ground_sensors = True, aqicn = False, weather = False\<rparr>"
  unfolding all_failed_fusion
  by (simp_all add: fused_overall py_or_def emergency_primary)
    (simp_all add: fuse_data_sources_def Let_def py_or_def)

text \<open>
  C3 as stated fails: with all four adapters failing the confidence label is "high", not
  "low", because the emergency reading carries both pm25 and no2.
\<close>

theorem all_failed_confidence_not_low:
  "confidence (fused (combine_results sample_rng sample_fallback_draws
       (Failed ''timeout'') (Failed ''timeout'') (Failed ''timeout'') (Failed ''timeout'') 40.7 (- 74)))
     = ''high''
   \<and> ''high'' \<noteq> ''low''"
  by (simp add: all_failed_fields)

text \<open>
  C3, as the code has it: when all four adapters fail, the fusion still returns a result
  built from the emergency ground reading; its errors map has four entries, one per
  failed source, its primary source is "ground_sensors", its confidence label is "high",
  and its data quality is "medium" with only the ground-sensor flag set.
\<close>

theorem all_failed_emergency_result:
  "data_source_errors (combine_results rs d (Failed e0) (Failed e1) (Failed e2) (Failed e3) lat lon)
     = Some [(''tempo'', e0), (''openaq'', e1), (''aqicn'', e2), (''weather'', e3)]
   \<and> all_sources_failed (returned (Failed e0)) (returned (Failed e1)) (returned (Failed e2))
        (returned (Failed e3))
   \<and> combine_results rs d (Failed e0) (Failed e1) (Failed e2) (Failed e3) lat lon =
       (fuse_data_sources d None (Some (generate_emergency_fallback_data rs lat lon)) None None lat lon)
         \<lparr>data_source_errors := Some [(''tempo'', e0), (''openaq'', e1), (''aqicn'', e2), (''weather'', e3)]\<rparr>
   \<and> primary_source (fused (combine_results rs d (Failed e0) (Failed e1) (Failed e2) (Failed e3) lat lon))
       = ''ground_sensors''
   \<and> confidence (fused (combine_results rs d (Failed e0) (Failed e1) (Failed e2) (Failed e3) lat lon))
       = ''high''
   \<and> data_quality (combine_results rs d (Failed e0) (Failed e1) (Failed e2) (Failed e3) lat lon) = ''medium''
   \<and> data_sources (combine_results rs d (Failed e0) (Failed e1) (Failed e2) (Failed e3) lat lon)
       = \<lparr>satellite = False, ground_sensors = True, aqicn = False, weather = False\<rparr>"
  using all_failed_fields [of rs d e0 e1 e2 e3 lat lon] all_failed_fusion [of rs d e0 e1 e2 e3 lat lon]
  by (simp add: all_sources_failed_def returned_simps)

section \<open>Range of the fused indices\<close>

lemma fold_max_bounds:
  "lo \<le> x \<Longrightarrow> x \<le> hi \<Longrightarrow> \<forall>y \<in> set xs. lo \<le> y \<and> y \<le> hi
   \<Longrightarrow> lo \<le> fold max xs x \<and> fold max xs x \<le> (hi :: real)"
proof (induction xs arbitrary: x)
  case Nil
  then show ?case by simp
next
  case (Cons a xs)
  have "lo \<le> max a x" "max a x \<le> hi" using Cons.prems by auto
  then show ?case using Cons.IH [of "max a x"] Cons.prems(3) by simp
qed

lemma py_max_or_bounds:
  "lo \<le> d \<Longrightarrow> d \<le> hi \<Longrightarrow> \<forall>y \<in> set xs. lo \<le> y \<and> y \<le> hi
   \<Longrightarrow> lo \<le> py_max_or d xs \<and> py_max_or d xs \<le> (hi :: real)"
proof (cases xs)
  case Nil
  assume "lo \<le> d" "d \<le> hi"
  then show ?thesis using Nil by (simp add: py_max_or_def)
next
  case (Cons a list)
  assume "\<forall>y \<in> set xs. lo \<le> y \<and> y \<le> hi"
  then show ?thesis using Cons fold_max_bounds [of lo a hi list] by (simp add: py_max_or_def)
qed

lemma converted_index_bounds:
  assumes o3: "\<And>v. map_of ms ''o3'' = Some v \<Longrightarrow> 0 \<le> a_value v"
    and no2: "\<And>v. map_of ms ''no2'' = Some v \<Longrightarrow> 0 \<le> a_value v"
  shows "\<forall>y \<in> set (map (\<lambda>(k, v, idx). idx) (converted ms)). 0 \<le> y \<and> y \<le> 500"
proof -
  have p: "0 \<le> (of_int (pm25_to_aqi c) :: real) \<and> (of_int (pm25_to_aqi c) :: real) \<le> 500" for c
    using pm25_bounds [of c] by simp
  have a: "map_of ms ''o3'' = Some v \<Longrightarrow> 0 \<le> o3_to_aqi (a_value v) \<and> o3_to_aqi (a_value v) \<le> 500" for v
    using o3 o3_lower o3_upper by blast
  have b: "map_of ms ''no2'' = Some v \<Longrightarrow> 0 \<le> no2_to_aqi (a_value v) \<and> no2_to_aqi (a_value v) \<le> 500" for v
    using no2 no2_lower no2_upper by blast
  show ?thesis
    unfolding converted_indices converted_cases
    using p a b by (auto split: option.splits)
qed

lemma adjustment_factor_bounds: "0 \<le> adjustment_factor i \<and> adjustment_factor i \<le> 11 / 10"
  by (simp add: adjustment_factor_def)

lemma adjusted_bounds:
  assumes "0 \<le> n" and "n \<le> 500"
  shows "0 \<le> py_int (of_int n * adjustment_factor i) \<and> py_int (of_int n * adjustment_factor i) \<le> 550"
proof -
  have f: "0 \<le> adjustment_factor i" "adjustment_factor i \<le> 11 / 10"
    using adjustment_factor_bounds by blast+
  have lo: "0 \<le> (of_int n :: real) * adjustment_factor i" using assms(1) f(1) by simp
  have "(of_int n :: real) * adjustment_factor i \<le> 500 * (11 / 10)"
    using assms f by (intro mult_mono) auto
  then have hi: "(of_int n :: real) * adjustment_factor i \<le> of_int 550" by simp
  show ?thesis using py_int_bounds [OF lo hi] .
qed

lemma primary_weather_none: "weather_adjusted_aqi (calculate_primary_aqi d sd) = None"
  by (simp add: calculate_primary_aqi_def fallback_fields Let_def split: option.splits)

lemma primary_bounds:
  assumes idx: "\<And>a n. sd = Some a \<Longrightarrow> g_overall_aqi a = Some n \<Longrightarrow> 0 \<le> n \<and> n \<le> 500"
    and nn: "\<And>a ms k v. sd = Some a \<Longrightarrow> averaged_measurements a = Some ms \<Longrightarrow> k = ''o3'' \<or> k = ''no2''
                \<Longrightarrow> map_of ms k = Some v \<Longrightarrow> 0 \<le> a_value v"
    and fb: "25 \<le> d_base_aqi d" "d_base_aqi d \<le> 150"
  shows "0 \<le> overall_aqi (calculate_primary_aqi d sd) \<and> overall_aqi (calculate_primary_aqi d sd) \<le> 500"
proof (cases sd)
  case None
  then show ?thesis using fb by (simp add: primary_none fallback_fields)
next
  case (Some a)
  show ?thesis
  proof (cases "g_source a = ''AQICN (World Air Quality Index)'' \<and> (\<exists>n. g_overall_aqi a = Some n \<and> n \<noteq> 0)")
    case True
    then obtain n where n: "g_overall_aqi a = Some n" "n \<noteq> 0" by blast
    have "overall_aqi (calculate_primary_aqi d (Some a)) = n"
      using primary_aqicn(1) True n by blast
    then show ?thesis using idx [OF Some n(1)] Some by simp
  next
    case False
    then have s: "g_source a \<noteq> ''AQICN (World Air Quality Index)'' \<or> g_overall_aqi a = None
           \<or> g_overall_aqi a = Some 0"
      by (cases "g_overall_aqi a") auto
    show ?thesis
    proof (cases "averaged_measurements a = None \<or> averaged_measurements a = Some []")
      case True
      then show ?thesis using primary_no_index [OF s True, of d] fb Some by (simp add: fallback_fields)
    next
      case False
      then obtain ms where ms: "averaged_measurements a = Some ms" "ms \<noteq> []" by auto
      have b: "\<forall>y \<in> set (map (\<lambda>(k, v, idx). idx) (converted ms)). 0 \<le> y \<and> y \<le> 500"
        using nn [OF Some ms(1)] by (intro converted_index_bounds) blast+
      have m: "0 \<le> py_max_or 50 (map (\<lambda>(k, v, idx). idx) (converted ms))
               \<and> py_max_or 50 (map (\<lambda>(k, v, idx). idx) (converted ms)) \<le> of_int 500"
        using py_max_or_bounds [of 0 50 500, OF _ _ b] by simp
      show ?thesis
        unfolding Some primary_averaged(1) [OF s ms]
        using py_int_bounds m by blast
    qed
  qed
qed


text \<open>
  C1 as stated fails. The weather adjustment is not clamped: an overall index of 500
  under "stagnant" weather gives 550. A negative averaged O3 concentration gives a
  negative overall index, and an AQICN index above 500 is passed through unchanged.
\<close>

theorem fused_index_out_of_range:
  "overall_aqi (fused (fuse_data_sources sample_fallback_draws None
       (Some (sample_openaq_reading [(''pm25'', 600)])) None
       (Some (process_weather_data (sample_weather 1 50 ''Clear''))) 0 0)) = 500
   \<and> weather_adjusted_aqi (fused (fuse_data_sources sample_fallback_draws None
       (Some (sample_openaq_reading [(''pm25'', 600)])) None
       (Some (process_weather_data (sample_weather 1 50 ''Clear''))) 0 0)) = Some 550
   \<and> overall_aqi (fused (fuse_data_sources sample_fallback_draws None
       (Some (sample_openaq_reading [(''o3'', - 10)])) None None 0 0)) = - 9
   \<and> overall_aqi (fused (fuse_data_sources sample_fallback_draws None None
       (Some (process_aqicn_data \<lparr>city_name = None, iaqi = [], aqi = Some 999\<rparr> 0 0)) None 0 0)) = 999"
proof -
  let ?g = "sample_openaq_reading [(''pm25'', 600)]"
  let ?h = "sample_openaq_reading [(''o3'', - 10)]"
  let ?a = "process_aqicn_data \<lparr>city_name = None, iaqi = [], aqi = Some 999\<rparr> 0 0"
  have i: "air_quality_impact (process_weather_data (sample_weather 1 50 ''Clear'')) = ''stagnant''"
    by (simp add: process_weather_data_def assess_weather_impact_def sample_weather_def to_lower_def)
  have p: "pm25_to_aqi 600 = 500"
    by (simp add: pm25_to_aqi_def pm25_breakpoints_def in_band_def)
  have o: "o3_to_aqi (- 10) = - (250 / 27)" by (simp add: o3_to_aqi_def)
  have g: "overall_aqi (calculate_primary_aqi sample_fallback_draws (Some ?g)) = 500"
    using primary_averaged(1) [of ?g "[(''pm25'', \<lparr>a_value = 600, a_confidence = 10\<rparr>)]" sample_fallback_draws]
    by (simp add: sample_openaq_reading_def converted_def p py_max_or_def py_int_def)
  have h: "overall_aqi (calculate_primary_aqi sample_fallback_draws (Some ?h)) = - 9"
    using primary_averaged(1) [of ?h "[(''o3'', \<lparr>a_value = - 10, a_confidence = 10\<rparr>)]" sample_fallback_draws]
    by (simp add: sample_openaq_reading_def converted_def o py_max_or_def py_int_def)
  have a: "overall_aqi (calculate_primary_aqi sample_fallback_draws (Some ?a)) = 999"
    by (rule primary_aqicn(1)) (simp_all add: process_aqicn_data_def)
  show ?thesis
    unfolding fused_overall fused_weather_adjusted i
    by (simp add: py_or_def g h a adjustment_factor_def py_int_def)
qed

text \<open>
  C1, as the code has it: the overall index is an integer in the range 0 to 500 provided
  that the AQICN index, where one is reported, lies in that range, that the averaged
  O3 and NO2 concentrations are not negative, and that the fallback model draws its index
  between 25 and 150, as \<^verbatim>\<open>random.randint(25, 150)\<close> does. Under the same conditions the
  weather-adjusted index, present exactly when a weather reading is, lies in the range 0
  to 550.
\<close>

theorem fused_indices_bounded:
  assumes "\<forall>a n. py_or aq oq = Some a \<and> g_overall_aqi a = Some n \<longrightarrow> 0 \<le> n \<and> n \<le> 500"
    and "\<forall>a ms k v. py_or aq oq = Some a \<and> averaged_measurements a = Some ms
           \<and> (k = ''o3'' \<or> k = ''no2'') \<and> map_of ms k = Some v \<longrightarrow> 0 \<le> a_value v"
    and "25 \<le> d_base_aqi d \<and> d_base_aqi d \<le> 150"
  shows "0 \<le> overall_aqi (fused (fuse_data_sources d t oq aq w lat lon))
         \<and> overall_aqi (fused (fuse_data_sources d t oq aq w lat lon)) \<le> 500
         \<and> (\<forall>n. weather_adjusted_aqi (fused (fuse_data_sources d t oq aq w lat lon)) = Some n
                \<longrightarrow> 0 \<le> n \<and> n \<le> 550)
         \<and> ((weather_adjusted_aqi (fused (fuse_data_sources d t oq aq w lat lon)) = None) = (w = None))"
proof -
  have b: "0 \<le> overall_aqi (calculate_primary_aqi d (py_or aq oq))
           \<and> overall_aqi (calculate_primary_aqi d (py_or aq oq)) \<le> 500"
    using assms by (intro primary_bounds) blast+
  show ?thesis
  proof (cases w)
    case None
    then show ?thesis using b by (simp add: fused_overall fused_weather_adjusted primary_weather_none)
  next
    case (Some wr)
    then show ?thesis
      using b adjusted_bounds [of "overall_aqi (calculate_primary_aqi d (py_or aq oq))" "air_quality_impact wr"]
      by (simp add: fused_overall fused_weather_adjusted)
  qed
qed

theorem fused_indices_bounded_witness:
  "25 \<le> d_base_aqi sample_fallback_draws \<and> d_base_aqi sample_fallback_draws \<le> 150
   \<and> g_overall_aqi (sample_openaq_reading [(''pm25'', 20), (''no2'', 10)]) = None
   \<and> averaged_measurements (sample_openaq_reading [(''pm25'', 20), (''no2'', 10)])
       = Some [(''pm25'', \<lparr>a_value = 20, a_confidence = 10\<rparr>), (''no2'', \<lparr>a_value = 10, a_confidence = 10\<rparr>)]
   \<and> 0 \<le> overall_aqi (fused (fuse_data_sources sample_fallback_draws None
              (Some (sample_openaq_reading [(''pm25'', 20), (''no2'', 10)])) None
              (Some (process_weather_data (sample_weather 1 50 ''Clear''))) 0 0))
   \<and> overall_aqi (fused (fuse_data_sources sample_fallback_draws None
              (Some (sample_openaq_reading [(''pm25'', 20), (''no2'', 10)])) None
              (Some (process_weather_data (sample_weather 1 50 ''Clear''))) 0 0)) \<le> 500"
proof -
  let ?g = "sample_openaq_reading [(''pm25'', 20), (''no2'', 10)]"
  have h1: "\<forall>a n. py_or None (Some ?g) = Some a \<and> g_overall_aqi a = Some n \<longrightarrow> 0 \<le> n \<and> n \<le> 500"
    by (simp add: py_or_def sample_openaq_reading_def)
  have h2: "\<forall>a ms k v. py_or None (Some ?g) = Some a \<and> averaged_measurements a = Some ms
           \<and> (k = ''o3'' \<or> k = ''no2'') \<and> map_of ms k = Some v \<longrightarrow> 0 \<le> a_value v"
    by (auto simp add: py_or_def sample_openaq_reading_def)
  have h3: "25 \<le> d_base_aqi sample_fallback_draws \<and> d_base_aqi sample_fallback_draws \<le> 150"
    by (simp add: sample_fallback_draws_def)
  have g: "g_overall_aqi ?g = None
      \<and> averaged_measurements ?g
          = Some [(''pm25'', \<lparr>a_value = 20, a_confidence = 10\<rparr>), (''no2'', \<lparr>a_value = 10, a_confidence = 10\<rparr>)]"
    by (simp add: sample_openaq_reading_def)
  from fused_indices_bounded [OF h1 h2 h3, of None "Some (process_weather_data (sample_weather 1 50 ''Clear''))" 0 0]
    h3 g
  show ?thesis by simp
qed

section \<open>Determinism of the synthesized data\<close>

lemmas format_simps = py_format_f_def py_round_def nat_digits.simps frac_digits_def digit_char_def upt_rec





lemma py_round_window: "of_int (py_round y) - 1 / 2 \<le> y \<and> y \<le> of_int (py_round y) + 1 / 2"
proof -
  have f: "of_int \<lfloor>y\<rfloor> \<le> y" "y < of_int \<lfloor>y\<rfloor> + 1" by linarith+
  consider "y - of_int \<lfloor>y\<rfloor> < 1 / 2" | "1 / 2 < y - of_int \<lfloor>y\<rfloor>" | "y - of_int \<lfloor>y\<rfloor> = 1 / 2"
    by linarith
  then show ?thesis
  proof cases
    case 1
    then have p: "py_round y = \<lfloor>y\<rfloor>" by (simp add: py_round_def Let_def)
    show ?thesis unfolding p using f 1 by linarith
  next
    case 2
    then have p: "py_round y = \<lfloor>y\<rfloor> + 1" by (simp add: py_round_def Let_def)
    have q: "(of_int (\<lfloor>y\<rfloor> + 1) :: real) = of_int \<lfloor>y\<rfloor> + 1" by simp
    show ?thesis unfolding p q using f 2 by linarith
  next
    case 3
    have q: "(of_int (\<lfloor>y\<rfloor> + 1) :: real) = of_int \<lfloor>y\<rfloor> + 1" by simp
    from py_round_cases [of y] show ?thesis
    proof
      assume p: "py_round y = \<lfloor>y\<rfloor>"
      show ?thesis unfolding p using f 3 by linarith
    next
      assume p: "py_round y = \<lfloor>y\<rfloor> + 1"
      show ?thesis unfolding p q using f 3 by linarith
    qed
  qed
qed

lemma mock_pm25_differs:
  assumes "0 \<le> u"
  shows "py_round_to (uniform 8 25 u) 1 \<noteq> py_round_to (uniform 25 65 u) 1"
proof
  assume eq: "py_round_to (uniform 8 25 u) 1 = py_round_to (uniform 25 65 u) 1"
  let ?a = "py_round ((8 + 17 * u) * 10)" and ?b = "py_round ((25 + 40 * u) * 10)"
  from eq have e: "(of_int ?a :: real) = of_int ?b" by (simp add: py_round_to_def uniform_def)
  have wa: "of_int ?a - 1 / 2 \<le> 80 + 170 * u"
    using py_round_window [of "(8 + 17 * u) * 10"] by (simp add: algebra_simps)
  have wb: "250 + 400 * u \<le> of_int ?b + 1 / 2"
    using py_round_window [of "(25 + 40 * u) * 10"] by (simp add: algebra_simps)
  from wa wb e assms show False by linarith
qed

text \<open>
  The difference does not depend on the generator: whatever value in the unit interval
  the first draw has, the two inputs get different PM2.5 estimates.
\<close>

lemma mock_data_differs_for_every_draw:
  assumes "\<forall>s i. 0 \<le> draw rs s i"
  shows "averaged_measurements (generate_mock_openaq_data rs 5.9999 80)
         \<noteq> averaged_measurements (generate_mock_openaq_data rs 6.0001 80)"
proof -
  have k: "location_key 5.9999 80 = location_key 6.0001 80"
    by (simp add: location_key_def format_simps)
  have "0 \<le> draw rs (seed_of rs (location_key 6.0001 80)) 0" using assms by blast
  from mock_pm25_differs [OF this] show ?thesis
    unfolding generate_mock_openaq_data_def Let_def k
    by (simp add: is_india_def is_urban_def py_round_def)
qed

end
